theory Spec2Isabelle
  imports Complex_Main
begin

section \<open>Voice assistant prompt optimizer: the optimization loop of optimize.py\<close>

text \<open>
  The development embeds the class \<open>VoiceAssistantOptimizer\<close> of \<open>optimize.py\<close>:
  test-suite generation, the evaluation of one iteration, the stopping rules of the
  loop and the prompt rewrite.

  Modelling conventions.
  \<^item> Python floats (scores, weights, thresholds) are real numbers: the arithmetic is
    the exact one; rounding, infinities and NaN are not modelled.
  \<^item> Python integers are \<open>int\<close>; lengths and counts are \<open>nat\<close>.
  \<^item> A Python string is a \<open>string\<close>, one \<open>char\<close> per code point below 256.
  \<^item> The remote services (the primary model client, the Perplexity client) and the
    JSON library are parameters: an environment of functions over a world state
    \<open>'w\<close>, which every remote call reads and advances. A call that the client
    wrappers answer with \<open>None\<close> (they catch every exception) returns \<open>None\<close>.
  \<^item> The text of a request is an f-string over a few values; a request is modelled
    by those values and by the call site they come from.
  \<^item> An exception that the optimizer does not catch is a value \<open>Inl e\<close>.
  \<^item> What the methods print is left out: it decides nothing.
\<close>

subsection \<open>Strings and slices\<close>

text \<open>\<open>str.isspace\<close> on one character, for code points below 256.\<close>

definition py_isspace :: "char \<Rightarrow> bool" where
  "py_isspace c \<longleftrightarrow>
     (of_char c :: nat) \<in> {9, 10, 11, 12, 13, 28, 29, 30, 31, 32, 133, 160}"

text \<open>\<open>s.strip()\<close>: leading and trailing whitespace removed.\<close>

definition py_strip :: "string \<Rightarrow> string" where
  "py_strip s = rev (dropWhile py_isspace (rev (dropWhile py_isspace s)))"

text \<open>\<open>s.split('\n')\<close>: the pieces between line feeds, empty pieces kept.\<close>

fun py_split_nl :: "string \<Rightarrow> string list" where
  "py_split_nl [] = [[]]"
| "py_split_nl (c # cs) =
     (if c = CHR 0x0A then [] # py_split_nl cs
      else (case py_split_nl cs of
              [] \<Rightarrow> [[c]]
            | piece # pieces \<Rightarrow> (c # piece) # pieces))"

text \<open>\<open>xs[:n]\<close> for an integer \<open>n\<close>: a negative \<open>n\<close> counts from the end.\<close>

definition py_slice_to :: "'a list \<Rightarrow> int \<Rightarrow> 'a list" where
  "py_slice_to xs n =
     (if 0 \<le> n then take (nat n) xs else take (nat (int (length xs) + n)) xs)"

subsection \<open>Configuration and data\<close>

datatype primary_model = CLAUDE | OPENAI

text \<open>The class \<open>Config\<close>, after \<open>Config.validate\<close> has accepted the primary model.\<close>

record config =
  PRIMARY_MODEL :: primary_model
  MAX_ITERATIONS :: int
  TARGET_ACCURACY :: real
  MIN_IMPROVEMENT :: real
  VARIATIONS_PER_QUERY :: int
  FUNCTION_WEIGHT :: real
  PARAMETER_WEIGHT :: real
  USE_PERPLEXITY :: bool
  RESEARCH_MODE :: string

text \<open>The name and the description of each entry of \<open>FUNCTIONS\<close>.\<close>

definition FUNCTIONS :: "(string \<times> string) list" where
  "FUNCTIONS =
     [(''answer_question'',
       ''Answer general questions and provide information to the user''),
      (''escalate_to_human'',
       ''Escalate the conversation to a human support agent'')]"

text \<open>A value that is \<open>None\<close> or a string, compared by \<open>==\<close>.\<close>

datatype pyval = PyNone | PyStr string

datatype error = JSONDecodeError | IndexError | ZeroDivisionError

text \<open>An entry of the test suite: \<open>{"original": query, "variation": v}\<close>.\<close>

record test_case =
  original :: string
  variation :: string

text \<open>The dictionary that \<open>call_voice_assistant\<close> returns; \<open>func\<close> is its key
  \<open>"function"\<close>.\<close>

record 'j result =
  query :: string
  func :: pyval
  params :: 'j
  success :: bool

text \<open>An entry of \<open>results\<close> in \<open>run_iteration\<close>.\<close>

record evaluation =
  query :: string
  expected :: string
  actual :: pyval
  correct :: bool

text \<open>The dictionary \<open>metrics\<close> of \<open>run_iteration\<close>.\<close>

record metrics =
  iteration :: int
  overall :: real
  function_acc :: real
  correct :: nat
  total :: nat
  evaluations :: "evaluation list"

subsection \<open>The remote services\<close>

text \<open>
  The message text of a plain chat completion, by call site: the values its f-string
  interpolates. \<open>Metaprompt\<close> carries the current prompt, the overall score, the
  function accuracy, the number of tests passed, their total, the error examples and
  the research insights.
\<close>

datatype prompt_text =
    Variations_prompt string int
  | Expected_prompt "(string \<times> string) list" string
  | Metaprompt string real real nat nat "evaluation list" string

text \<open>
  \<open>response['choices'][0]['message']\<close> of a completion that was offered the function
  catalog: a function call with its name and its argument text, or content only.
\<close>

datatype message = Function_call string string | Content_only

text \<open>
  \<^item> \<open>chat_completion\<close>: messages, temperature, max_tokens; the content of the
    answer, or \<open>None\<close>.
  \<^item> \<open>chat_completion_with_tools\<close>: the system prompt and the query, the catalog,
    temperature, max_tokens; the message, or \<open>None\<close>. It stands for
    \<open>ClaudeClient.chat_completion_with_tools\<close> and for \<open>OpenAIClient.chat_completion\<close>
    called with \<open>functions\<close>.
  \<^item> \<open>research\<close>: \<open>PerplexityClient.research\<close>, given the function accuracy and the
    overall score of the query text and the mode.
  \<^item> \<open>json_loads\<close>: \<open>json.loads\<close>, \<open>None\<close> when it raises; \<open>json_empty\<close> is \<open>{}\<close>.
\<close>

record ('w, 'j) env =
  chat_completion :: "'w \<Rightarrow> prompt_text \<Rightarrow> real \<Rightarrow> nat \<Rightarrow> string option \<times> 'w"
  chat_completion_with_tools ::
    "'w \<Rightarrow> string \<times> string \<Rightarrow> (string \<times> string) list \<Rightarrow> real \<Rightarrow> nat \<Rightarrow> message option \<times> 'w"
  research :: "'w \<Rightarrow> real \<Rightarrow> real \<Rightarrow> string \<Rightarrow> string option \<times> 'w"
  json_loads :: "string \<Rightarrow> 'j option"
  json_empty :: "'j"

subsection \<open>The optimizer\<close>

text \<open>The attributes of a \<open>VoiceAssistantOptimizer\<close>; \<open>perplexity\<close> tells whether
  the Perplexity client was created.\<close>

record optimizer =
  perplexity :: bool
  metrics_history :: "metrics list"
  best_prompt :: string
  best_score :: real

definition init_optimizer :: "config \<Rightarrow> string \<Rightarrow> optimizer" where
  "init_optimizer cfg INITIAL_PROMPT =
     \<lparr>perplexity = USE_PERPLEXITY cfg, metrics_history = [],
      best_prompt = INITIAL_PROMPT, best_score = 0\<rparr>"

definition generate_query_variations ::
  "('w, 'j) env \<Rightarrow> string \<Rightarrow> int \<Rightarrow> 'w \<Rightarrow> string list \<times> 'w" where
  "generate_query_variations env q num_variations w =
     (case chat_completion env w (Variations_prompt q (num_variations - 1)) 0.8 200 of
        (None, w') \<Rightarrow> ([q], w')
      | (Some content, w') \<Rightarrow>
          (let generated = py_split_nl (py_strip content)
           in ([q] @ py_slice_to
                 (map py_strip (filter (\<lambda>v. py_strip v \<noteq> []) generated))
                 (num_variations - 1), w')))"

definition call_voice_assistant ::
  "('w, 'j) env \<Rightarrow> string \<Rightarrow> string \<Rightarrow> 'w \<Rightarrow> (error + 'j result) \<times> 'w" where
  "call_voice_assistant env q system_prompt w =
     (case chat_completion_with_tools env w (system_prompt, q) FUNCTIONS 0.7 500 of
        (None, w') \<Rightarrow>
          (Inr \<lparr>result.query = q, func = PyNone, params = json_empty env,
                success = False\<rparr>, w')
      | (Some (Function_call fname arguments), w') \<Rightarrow>
          (case json_loads env arguments of
             None \<Rightarrow> (Inl JSONDecodeError, w')
           | Some ps \<Rightarrow>
               (Inr \<lparr>result.query = q, func = PyStr fname, params = ps,
                     success = True\<rparr>, w'))
      | (Some Content_only, w') \<Rightarrow>
          (Inr \<lparr>result.query = q, func = PyNone, params = json_empty env,
                success = True\<rparr>, w'))"

definition get_expected_function :: "('w, 'j) env \<Rightarrow> string \<Rightarrow> 'w \<Rightarrow> string \<times> 'w" where
  "get_expected_function env q w =
     (case chat_completion env w (Expected_prompt FUNCTIONS q) 0.0 20 of
        (Some content, w') \<Rightarrow> (py_strip content, w')
      | (None, w') \<Rightarrow> (''unknown'', w'))"

definition research_optimization_strategies ::
  "('w, 'j) env \<Rightarrow> config \<Rightarrow> optimizer \<Rightarrow> metrics \<Rightarrow> 'w \<Rightarrow> string \<times> 'w" where
  "research_optimization_strategies env cfg self current_metrics w =
     (if \<not> perplexity self then ('''', w)
      else (case research env w (function_acc current_metrics) (overall current_metrics)
                   (RESEARCH_MODE cfg) of
              (Some r, w') \<Rightarrow> (if r \<noteq> [] then (r, w') else ('''', w'))
            | (None, w') \<Rightarrow> ('''', w')))"

definition optimize_prompt ::
  "('w, 'j) env \<Rightarrow> config \<Rightarrow> string \<Rightarrow> metrics \<Rightarrow> string \<Rightarrow> 'w \<Rightarrow> string \<times> 'w" where
  "optimize_prompt env cfg current_prompt m research_insights w =
     (let errors = take 5 (filter (\<lambda>e. \<not> evaluation.correct e) (evaluations m));
          metaprompt = Metaprompt current_prompt (overall m) (function_acc m)
                         (metrics.correct m) (total m) errors research_insights;
          max_tokens = (if PRIMARY_MODEL cfg = CLAUDE then 1500 else 1000)
      in (case chat_completion env w metaprompt 0.7 max_tokens of
            (Some content, w') \<Rightarrow> (py_strip content, w')
          | (None, w') \<Rightarrow> (current_prompt, w')))"

text \<open>The loop \<open>for test in test_suite\<close> of \<open>run_iteration\<close>, with \<open>results\<close> as
  accumulator.\<close>

fun test_loop ::
  "('w, 'j) env \<Rightarrow> string \<Rightarrow> test_case list \<Rightarrow> evaluation list \<Rightarrow> 'w
     \<Rightarrow> (error + evaluation list) \<times> 'w" where
  "test_loop env prompt [] results w = (Inr results, w)"
| "test_loop env prompt (test # tests) results w =
     (case call_voice_assistant env (variation test) prompt w of
        (Inl e, w1) \<Rightarrow> (Inl e, w1)
      | (Inr r, w1) \<Rightarrow>
          (case get_expected_function env (result.query r) w1 of
             (expected', w2) \<Rightarrow>
               test_loop env prompt tests
                 (results @ [\<lparr>evaluation.query = result.query r, expected = expected',
                              actual = func r,
                              evaluation.correct = (func r = PyStr expected')\<rparr>]) w2))"

text \<open>\<open>a / b\<close> on two integers that are counts: true division, which raises on a zero
  divisor.\<close>

definition py_truediv :: "nat \<Rightarrow> nat \<Rightarrow> error + real" where
  "py_truediv a b = (if b = 0 then Inl ZeroDivisionError else Inr (real a / real b))"

text \<open>\<open>run_iteration\<close>: the evaluations, then the metrics. The conditional expression
  \<open>correct / total if total > 0 else 0\<close> evaluates the division only when its condition
  holds.\<close>

definition run_iteration ::
  "('w, 'j) env \<Rightarrow> config \<Rightarrow> string \<Rightarrow> test_case list \<Rightarrow> int \<Rightarrow> 'w
     \<Rightarrow> (error + metrics) \<times> 'w" where
  "run_iteration env cfg prompt test_suite it w =
     (case test_loop env prompt test_suite [] w of
        (Inl e, w') \<Rightarrow> (Inl e, w')
      | (Inr results, w') \<Rightarrow>
          (let n = length results;
               c = length (filter evaluation.correct results)
           in (case (if n > 0 then py_truediv c n else Inr 0) of
                 Inl e \<Rightarrow> (Inl e, w')
               | Inr acc \<Rightarrow>
                   (let score = acc * FUNCTION_WEIGHT cfg + 0.8 * PARAMETER_WEIGHT cfg
                    in (Inr \<lparr>iteration = it, overall = score, function_acc = acc,
                              metrics.correct = c, total = n, evaluations = results\<rparr>,
                        w')))))"

subsection \<open>The optimization process\<close>

text \<open>The loop \<open>for query in TEST_QUERIES\<close> of \<open>optimize\<close>, with \<open>test_suite\<close> as
  accumulator.\<close>

fun generate_test_suite ::
  "('w, 'j) env \<Rightarrow> config \<Rightarrow> string list \<Rightarrow> test_case list \<Rightarrow> 'w
     \<Rightarrow> test_case list \<times> 'w" where
  "generate_test_suite env cfg [] test_suite w = (test_suite, w)"
| "generate_test_suite env cfg (q # qs) test_suite w =
     (case generate_query_variations env q (VARIATIONS_PER_QUERY cfg) w of
        (variations, w') \<Rightarrow>
          generate_test_suite env cfg qs
            (test_suite @ map (\<lambda>v. \<lparr>original = q, variation = v\<rparr>) variations) w')"

text \<open>\<open>xs[i]\<close> for an integer \<open>i\<close>, negative indices counting from the end; outside
  the list it raises.\<close>

definition py_index :: "'a list \<Rightarrow> int \<Rightarrow> error + 'a" where
  "py_index xs i =
     (let j = (if i < 0 then int (length xs) + i else i)
      in if 0 \<le> j \<and> j < int (length xs) then Inr (xs ! nat j) else Inl IndexError)"

text \<open>
  How the optimization loop is left: by the \<open>break\<close> after "Target accuracy
  reached", by the \<open>break\<close> after "Improvement below threshold", at the end of
  \<open>range(1, MAX_ITERATIONS + 1)\<close>, or by an exception.
\<close>

datatype exit = Target_reached | Plateau | Range_exhausted | Raised error

text \<open>One pass through the body of the loop either leaves the loop or hands the next
  pass its prompt.\<close>

datatype 'w step = Stop exit optimizer 'w | Continue string optimizer 'w

text \<open>"Track best": the history already holds the metrics of the iteration.\<close>

definition track_best :: "string \<Rightarrow> metrics \<Rightarrow> optimizer \<Rightarrow> optimizer" where
  "track_best current_prompt m self =
     (if overall m > best_score self
      then self\<lparr>best_score := overall m, best_prompt := current_prompt\<rparr>
      else self)"

text \<open>"Generate next prompt": only before the last iteration.\<close>

definition generate_next_prompt ::
  "('w, 'j) env \<Rightarrow> config \<Rightarrow> int \<Rightarrow> string \<Rightarrow> metrics \<Rightarrow> optimizer \<Rightarrow> 'w \<Rightarrow> 'w step" where
  "generate_next_prompt env cfg it current_prompt m self w =
     (if it < MAX_ITERATIONS cfg then
        (case (if USE_PERPLEXITY cfg \<and> it = 1
               then research_optimization_strategies env cfg self m w
               else ('''', w)) of
           (research_insights, w1) \<Rightarrow>
             (case optimize_prompt env cfg current_prompt m research_insights w1 of
                (new_prompt, w2) \<Rightarrow> Continue new_prompt self w2))
      else Continue current_prompt self w)"

definition loop_body ::
  "('w, 'j) env \<Rightarrow> config \<Rightarrow> test_case list \<Rightarrow> int \<Rightarrow> string \<Rightarrow> optimizer \<Rightarrow> 'w
     \<Rightarrow> 'w step" where
  "loop_body env cfg test_suite it current_prompt self w =
     (case run_iteration env cfg current_prompt test_suite it w of
        (Inl e, w1) \<Rightarrow> Stop (Raised e) self w1
      | (Inr m, w1) \<Rightarrow>
          (let self1 = self\<lparr>metrics_history := metrics_history self @ [m]\<rparr>;
               self2 = track_best current_prompt m self1
           in if overall m \<ge> TARGET_ACCURACY cfg then Stop Target_reached self2 w1
              else if it > 1 then
                (case py_index (metrics_history self2) (- 2) of
                   Inl e \<Rightarrow> Stop (Raised e) self2 w1
                 | Inr previous \<Rightarrow>
                     (let improvement = overall m - overall previous
                      in if improvement < MIN_IMPROVEMENT cfg then Stop Plateau self2 w1
                         else generate_next_prompt env cfg it current_prompt m self2 w1))
              else generate_next_prompt env cfg it current_prompt m self2 w1))"

text \<open>\<open>for iteration in range(1, MAX_ITERATIONS + 1)\<close>, from the iteration \<open>it\<close> on.\<close>

function optimize_loop ::
  "('w, 'j) env \<Rightarrow> config \<Rightarrow> test_case list \<Rightarrow> int \<Rightarrow> string \<Rightarrow> optimizer \<Rightarrow> 'w
     \<Rightarrow> exit \<times> optimizer \<times> 'w" where
  "optimize_loop env cfg test_suite it current_prompt self w =
     (if it > MAX_ITERATIONS cfg then (Range_exhausted, self, w)
      else (case loop_body env cfg test_suite it current_prompt self w of
              Stop how self' w' \<Rightarrow> (how, self', w')
            | Continue next_prompt self' w' \<Rightarrow>
                optimize_loop env cfg test_suite (it + 1) next_prompt self' w'))"
  by pat_completeness auto
termination
  by (relation "measure (\<lambda>(env, cfg, test_suite, it, current_prompt, self, w).
                  nat (MAX_ITERATIONS cfg + 1 - it))") auto

text \<open>
  \<open>optimize\<close>: the test suite, then the loop from iteration 1 with the initial prompt.
  The method returns \<open>self.best_prompt\<close>, \<open>self.best_score\<close> and
  \<open>self.metrics_history\<close>: the fields of the optimizer that the result carries.
\<close>

definition optimize ::
  "('w, 'j) env \<Rightarrow> config \<Rightarrow> string list \<Rightarrow> string \<Rightarrow> optimizer \<Rightarrow> 'w
     \<Rightarrow> exit \<times> optimizer \<times> 'w" where
  "optimize env cfg TEST_QUERIES INITIAL_PROMPT self w =
     (case generate_test_suite env cfg TEST_QUERIES [] w of
        (test_suite, w1) \<Rightarrow>
          optimize_loop env cfg test_suite 1 INITIAL_PROMPT self w1)"

declare optimize_loop.simps [simp del]

subsection \<open>Auxiliary notions\<close>

text \<open>The optimizer that a pass through the loop body leaves behind.\<close>

primrec step_self :: "'w step \<Rightarrow> optimizer" where
  "step_self (Stop how self w) = self"
| "step_self (Continue next_prompt self w) = self"

text \<open>The optimizer after an iteration that produced the metrics \<open>m\<close> for the prompt
  \<open>current_prompt\<close>: the history is extended, then the best is tracked.\<close>

definition after_iteration :: "string \<Rightarrow> metrics \<Rightarrow> optimizer \<Rightarrow> optimizer" where
  "after_iteration current_prompt m self =
     track_best current_prompt m (self\<lparr>metrics_history := metrics_history self @ [m]\<rparr>)"

text \<open>One for an exit by an exception, zero otherwise.\<close>

primrec raised :: "exit \<Rightarrow> nat" where
  "raised Target_reached = 0"
| "raised Plateau = 0"
| "raised Range_exhausted = 0"
| "raised (Raised e) = 1"

text \<open>The call of the model that \<open>optimize_prompt\<close> makes.\<close>

definition rewriter_call ::
  "('w, 'j) env \<Rightarrow> config \<Rightarrow> string \<Rightarrow> metrics \<Rightarrow> string \<Rightarrow> 'w \<Rightarrow> string option \<times> 'w" where
  "rewriter_call env cfg current_prompt m research_insights w =
     chat_completion env w
       (Metaprompt current_prompt (overall m) (function_acc m) (metrics.correct m) (total m)
          (take 5 (filter (\<lambda>e. \<not> evaluation.correct e) (evaluations m))) research_insights)
       0.7 (if PRIMARY_MODEL cfg = CLAUDE then 1500 else 1000)"

text \<open>The test cases that one seed query contributes: the seed itself, then its
  variations.\<close>

definition seed_block :: "string \<Rightarrow> string list \<Rightarrow> test_case list" where
  "seed_block q vs =
     \<lparr>original = q, variation = q\<rparr> # map (\<lambda>v. \<lparr>original = q, variation = v\<rparr>) vs"

subsection \<open>Two concrete environments\<close>

text \<open>
  A model whose answers depend on the request only; the world counts the remote calls.
  It answers a request for variations with three non-empty lines and an empty one, names
  \<open>answer_question\<close> as the expected function, calls no function under a prompt of
  one character, fails on the query \<open>f\<close> under a prompt of two characters, and returns
  the prompt with an exclamation mark as the improved prompt.
\<close>

definition demo_env :: "(nat, unit) env" where
  "demo_env =
     \<lparr>chat_completion = (\<lambda>w t temperature max_tokens.
        (case t of
           Variations_prompt q n \<Rightarrow>
             Some ('' '' @ q @ '' please'' @ [CHR 0x0A, CHR 0x0A] @ q @ '' now ''
                     @ [CHR 0x0A] @ ''third'')
         | Expected_prompt fs q \<Rightarrow> Some '' answer_question''
         | Metaprompt p s a c n errors insights \<Rightarrow> Some (p @ ''! ''), Suc w)),
      chat_completion_with_tools = (\<lambda>w (system_prompt, q) fs temperature max_tokens.
        (if length system_prompt = 1 then Some Content_only
         else if length system_prompt = 2 \<and> q = ''f'' then None
         else Some (Function_call ''answer_question'' ''{}''), Suc w)),
      research = (\<lambda>w a s mode. (None, Suc w)),
      json_loads = (\<lambda>s. Some ()),
      json_empty = ()\<rparr>"

text \<open>A model and a research service whose every call fails.\<close>

definition failing_env :: "(nat, unit) env" where
  "failing_env =
     \<lparr>chat_completion = (\<lambda>w t temperature max_tokens. (None, Suc w)),
      chat_completion_with_tools = (\<lambda>w messages fs temperature max_tokens. (None, Suc w)),
      research = (\<lambda>w a s mode. (None, Suc w)),
      json_loads = (\<lambda>s. None),
      json_empty = ()\<rparr>"

definition demo_config :: config where
  "demo_config =
     \<lparr>PRIMARY_MODEL = CLAUDE, MAX_ITERATIONS = 5, TARGET_ACCURACY = 0.90,
      MIN_IMPROVEMENT = 0.02, VARIATIONS_PER_QUERY = 1, FUNCTION_WEIGHT = 0.03,
      PARAMETER_WEIGHT = 0.84375, USE_PERPLEXITY = True, RESEARCH_MODE = ''deep''\<rparr>"

text \<open>One test case under \<open>failing_env\<close>: the metrics of every iteration, and the
  optimizer after the first one.\<close>

definition failing_suite :: "test_case list" where
  "failing_suite = [\<lparr>original = ''q'', variation = ''q''\<rparr>]"

definition failing_metrics :: "int \<Rightarrow> metrics" where
  "failing_metrics it =
     \<lparr>iteration = it, overall = 0.675, function_acc = 0, metrics.correct = 0, total = 1,
      evaluations = [\<lparr>evaluation.query = ''q'', expected = ''unknown'', actual = PyNone,
                       evaluation.correct = False\<rparr>]\<rparr>"

definition failing_state1 :: optimizer where
  "failing_state1 =
     \<lparr>perplexity = True, metrics_history = [failing_metrics 1],
      best_prompt = ''p'', best_score = 0.675\<rparr>"

definition failing_final :: optimizer where
  "failing_final =
     \<lparr>perplexity = True, metrics_history = [failing_metrics 1, failing_metrics 2],
      best_prompt = ''p'', best_score = 0.675\<rparr>"

definition demo_queries :: "string list" where
  "demo_queries = [''a'', ''b'', ''c'', ''d'', ''e'', ''f'']"

definition demo_suite :: "test_case list" where
  "demo_suite = map (\<lambda>q. \<lparr>original = q, variation = q\<rparr>) demo_queries"

text \<open>The evaluations of the six queries under \<open>demo_env\<close>, given which of them the
  assistant answered with \<open>answer_question\<close>.\<close>

definition demo_evaluations :: "bool list \<Rightarrow> evaluation list" where
  "demo_evaluations oks =
     map2 (\<lambda>q ok. \<lparr>evaluation.query = q, expected = ''answer_question'',
                    actual = (if ok then PyStr ''answer_question'' else PyNone),
                    evaluation.correct = ok\<rparr>) demo_queries oks"

definition demo_metrics1 :: metrics where
  "demo_metrics1 =
     \<lparr>iteration = 1, overall = 0.675, function_acc = 0, metrics.correct = 0, total = 6,
      evaluations = demo_evaluations [False, False, False, False, False, False]\<rparr>"

definition demo_metrics2 :: metrics where
  "demo_metrics2 =
     \<lparr>iteration = 2, overall = 0.70, function_acc = 5 / 6, metrics.correct = 5, total = 6,
      evaluations = demo_evaluations [True, True, True, True, True, False]\<rparr>"

definition demo_metrics3 :: metrics where
  "demo_metrics3 =
     \<lparr>iteration = 3, overall = 0.705, function_acc = 1, metrics.correct = 6, total = 6,
      evaluations = demo_evaluations [True, True, True, True, True, True]\<rparr>"

text \<open>The optimizer after the first and after the second iteration of the run of
  \<open>demo_env\<close> under \<open>demo_config\<close>.\<close>

definition demo_state1 :: optimizer where
  "demo_state1 =
     \<lparr>perplexity = True, metrics_history = [demo_metrics1],
      best_prompt = ''p'', best_score = 0.675\<rparr>"

definition demo_state2 :: optimizer where
  "demo_state2 =
     \<lparr>perplexity = True, metrics_history = [demo_metrics1, demo_metrics2],
      best_prompt = ''p!'', best_score = 0.70\<rparr>"

definition demo_final :: optimizer where
  "demo_final =
     \<lparr>perplexity = True,
      metrics_history = [demo_metrics1, demo_metrics2, demo_metrics3],
      best_prompt = ''p!!'', best_score = 0.705\<rparr>"

section \<open>Properties of the functions\<close>

subsection \<open>One iteration\<close>

text \<open>The loop over the test suite appends one evaluation per test case, and the flag
  of each is the comparison it recorded.\<close>

lemma test_loop_results:
  "test_loop env prompt tests results w = (Inr rs, w') \<Longrightarrow>
     \<exists>new. rs = results @ new \<and> length new = length tests \<and>
       (\<forall>e\<in>set new. evaluation.correct e = (actual e = PyStr (expected e)))"
proof (induction tests arbitrary: results w)
  case Nil
  then show ?case by simp
next
  case (Cons test tests)
  obtain r1 w1 where c: "call_voice_assistant env (variation test) prompt w = (r1, w1)"
    by (cases "call_voice_assistant env (variation test) prompt w")
  show ?case
  proof (cases r1)
    case (Inl e)
    with Cons.prems c show ?thesis by simp
  next
    case (Inr r)
    obtain x w2 where g: "get_expected_function env (result.query r) w1 = (x, w2)"
      by (cases "get_expected_function env (result.query r) w1")
    let ?e = "\<lparr>evaluation.query = result.query r, expected = x, actual = func r,
               evaluation.correct = (func r = PyStr x)\<rparr>"
    from Cons.prems c Inr g
    have "test_loop env prompt tests (results @ [?e]) w2 = (Inr rs, w')" by simp
    from Cons.IH [OF this] obtain new where
      n: "rs = (results @ [?e]) @ new" "length new = length tests"
         "\<forall>e\<in>set new. evaluation.correct e = (actual e = PyStr (expected e))"
      by blast
    have "rs = results @ (?e # new)" using n(1) by simp
    moreover have "length (?e # new) = length (test # tests)" using n(2) by simp
    moreover have "\<forall>e\<in>set (?e # new). evaluation.correct e = (actual e = PyStr (expected e))"
      using n(3) by simp
    ultimately show ?thesis by blast
  qed
qed

text \<open>The only exception of the evaluation is the one of \<open>json.loads\<close>.\<close>

lemma call_voice_assistant_error:
  "call_voice_assistant env q prompt w = (Inl e, w') \<Longrightarrow> e = JSONDecodeError"
  by (auto simp: call_voice_assistant_def split: prod.splits option.splits message.splits)

lemma test_loop_error:
  "test_loop env prompt tests results w = (Inl e, w') \<Longrightarrow> e = JSONDecodeError"
proof (induction tests arbitrary: results w)
  case Nil
  then show ?case by simp
next
  case (Cons test tests)
  obtain r1 w1 where c: "call_voice_assistant env (variation test) prompt w = (r1, w1)"
    by (cases "call_voice_assistant env (variation test) prompt w")
  show ?case
  proof (cases r1)
    case (Inl e1)
    with Cons.prems c have "e1 = e" by simp
    with Inl c have "call_voice_assistant env (variation test) prompt w = (Inl e, w1)"
      by simp
    then show ?thesis by (rule call_voice_assistant_error)
  next
    case (Inr r)
    obtain x w2 where g: "get_expected_function env (result.query r) w1 = (x, w2)"
      by (cases "get_expected_function env (result.query r) w1")
    from Cons.prems c Inr g Cons.IH show ?thesis by simp
  qed
qed

text \<open>The guard \<open>total > 0\<close> keeps the division from raising: the function accuracy is
  always a value.\<close>

lemma function_acc_guarded:
  "(if n > 0 then py_truediv c n else Inr 0)
     = Inr (if n > 0 then real c / real n else 0)"
  by (simp add: py_truediv_def)

lemma run_iteration_eq:
  "run_iteration env cfg prompt test_suite it w =
     (case test_loop env prompt test_suite [] w of
        (Inl e, w') \<Rightarrow> (Inl e, w')
      | (Inr results, w') \<Rightarrow>
          (let n = length results;
               c = length (filter evaluation.correct results);
               acc = (if n > 0 then real c / real n else 0);
               score = acc * FUNCTION_WEIGHT cfg + 0.8 * PARAMETER_WEIGHT cfg
           in (Inr \<lparr>iteration = it, overall = score, function_acc = acc,
                     metrics.correct = c, total = n, evaluations = results\<rparr>, w')))"
  unfolding run_iteration_def function_acc_guarded
  by (simp add: Let_def split: prod.splits sum.splits)

lemma run_iteration_error:
  assumes "run_iteration env cfg prompt test_suite it w = (Inl e, w')"
  shows "e = JSONDecodeError"
proof -
  obtain r w1 where t: "test_loop env prompt test_suite [] w = (r, w1)"
    by (cases "test_loop env prompt test_suite [] w")
  with assms have "r = Inl e"
    by (cases r) (simp_all add: run_iteration_eq Let_def)
  with t have "test_loop env prompt test_suite [] w = (Inl e, w1)" by simp
  then show ?thesis by (rule test_loop_error)
qed

lemma run_iteration_metrics:
  assumes "run_iteration env cfg prompt test_suite it w = (Inr m, w')"
  shows "overall m = function_acc m * FUNCTION_WEIGHT cfg + 0.8 * PARAMETER_WEIGHT cfg"
    and "function_acc m =
           (if total m > 0 then real (metrics.correct m) / real (total m) else 0)"
    and "metrics.correct m = length (filter evaluation.correct (evaluations m))"
    and "total m = length (evaluations m)"
    and "length (evaluations m) = length test_suite"
    and "\<forall>e\<in>set (evaluations m). evaluation.correct e = (actual e = PyStr (expected e))"
    and "iteration m = it"
proof -
  obtain r w1 where t: "test_loop env prompt test_suite [] w = (r, w1)"
    by (cases "test_loop env prompt test_suite [] w")
  with assms obtain rs where r: "r = Inr rs"
    by (cases r) (simp_all add: run_iteration_eq)
  define acc where
    "acc = (if length rs > 0
            then real (length (filter evaluation.correct rs)) / real (length rs) else 0)"
  from assms t r have m: "m = \<lparr>iteration = it,
      overall = acc * FUNCTION_WEIGHT cfg + 0.8 * PARAMETER_WEIGHT cfg,
      function_acc = acc,
      metrics.correct = length (filter evaluation.correct rs), total = length rs,
      evaluations = rs\<rparr>"
    by (simp add: run_iteration_eq Let_def acc_def)
  from test_loop_results [OF t [unfolded r]] obtain new where
    n: "rs = [] @ new" "length new = length test_suite"
       "\<forall>e\<in>set new. evaluation.correct e = (actual e = PyStr (expected e))"
    by blast
  show "overall m = function_acc m * FUNCTION_WEIGHT cfg + 0.8 * PARAMETER_WEIGHT cfg"
    by (simp add: m)
  show "function_acc m =
           (if total m > 0 then real (metrics.correct m) / real (total m) else 0)"
    by (simp add: m acc_def)
  show "metrics.correct m = length (filter evaluation.correct (evaluations m))"
    by (simp add: m)
  show "total m = length (evaluations m)" by (simp add: m)
  show "length (evaluations m) = length test_suite" using n by (simp add: m)
  show "\<forall>e\<in>set (evaluations m). evaluation.correct e = (actual e = PyStr (expected e))"
    using n by (simp add: m)
  show "iteration m = it" by (simp add: m)
qed

text \<open>\<open>run_iteration\<close> reads the two weights of the configuration only.\<close>

lemma run_iteration_weights:
  "FUNCTION_WEIGHT cfg' = FUNCTION_WEIGHT cfg \<Longrightarrow>
   PARAMETER_WEIGHT cfg' = PARAMETER_WEIGHT cfg \<Longrightarrow>
     run_iteration env cfg' p suite it w = run_iteration env cfg p suite it w"
  by (simp add: run_iteration_eq Let_def split: prod.splits sum.splits)

lemma get_expected_function_unknown:
  "chat_completion env w (Expected_prompt FUNCTIONS q) 0 20 = (None, w') \<Longrightarrow>
     get_expected_function env q w = (''unknown'', w')"
  by (simp add: get_expected_function_def)

lemma call_voice_assistant_failed:
  "chat_completion_with_tools env w (system_prompt, q) FUNCTIONS 0.7 500 = (None, w') \<Longrightarrow>
     call_voice_assistant env q system_prompt w =
       (Inr \<lparr>result.query = q, func = PyNone, params = json_empty env, success = False\<rparr>, w')"
  by (simp add: call_voice_assistant_def)

subsection \<open>The test suite\<close>

lemma length_py_slice_to: "0 \<le> n \<Longrightarrow> length (py_slice_to xs n) \<le> nat n"
  by (simp add: py_slice_to_def)

lemma generate_query_variations_shape:
  assumes "generate_query_variations env q k w = (vs, w')"
  shows "\<exists>rest. vs = q # rest \<and> (1 \<le> k \<longrightarrow> length rest \<le> nat (k - 1))"
proof -
  obtain r w1 where c: "chat_completion env w (Variations_prompt q (k - 1)) 0.8 200 = (r, w1)"
    by (cases "chat_completion env w (Variations_prompt q (k - 1)) 0.8 200")
  show ?thesis
  proof (cases r)
    case None
    with assms c show ?thesis by (auto simp: generate_query_variations_def)
  next
    case (Some content)
    let ?rest = "py_slice_to (map py_strip (filter (\<lambda>v. py_strip v \<noteq> [])
                   (py_split_nl (py_strip content)))) (k - 1)"
    from assms c Some have "vs = q # ?rest"
      by (simp add: generate_query_variations_def Let_def)
    moreover have "1 \<le> k \<longrightarrow> length ?rest \<le> nat (k - 1)"
      by (simp add: length_py_slice_to)
    ultimately show ?thesis by blast
  qed
qed

lemma generate_test_suite_shape:
  "generate_test_suite env cfg qs acc w = (suite, w') \<Longrightarrow>
     \<exists>vss. length vss = length qs \<and> suite = acc @ concat (map2 seed_block qs vss) \<and>
       (1 \<le> VARIATIONS_PER_QUERY cfg \<longrightarrow>
          (\<forall>vs\<in>set vss. length vs \<le> nat (VARIATIONS_PER_QUERY cfg - 1)))"
proof (induction qs arbitrary: acc w)
  case Nil
  then show ?case by simp
next
  case (Cons q qs)
  obtain vs w1 where g: "generate_query_variations env q (VARIATIONS_PER_QUERY cfg) w = (vs, w1)"
    by (cases "generate_query_variations env q (VARIATIONS_PER_QUERY cfg) w")
  from generate_query_variations_shape [OF g] obtain rest where
    r: "vs = q # rest"
       "1 \<le> VARIATIONS_PER_QUERY cfg \<longrightarrow> length rest \<le> nat (VARIATIONS_PER_QUERY cfg - 1)"
    by blast
  from Cons.prems g
  have "generate_test_suite env cfg qs
          (acc @ map (\<lambda>v. \<lparr>original = q, variation = v\<rparr>) vs) w1 = (suite, w')"
    by simp
  from Cons.IH [OF this] obtain vss where
    v: "length vss = length qs"
       "suite = (acc @ map (\<lambda>v. \<lparr>original = q, variation = v\<rparr>) vs)
                  @ concat (map2 seed_block qs vss)"
       "1 \<le> VARIATIONS_PER_QUERY cfg \<longrightarrow>
          (\<forall>vs\<in>set vss. length vs \<le> nat (VARIATIONS_PER_QUERY cfg - 1))"
    by blast
  have "length (rest # vss) = length (q # qs)" using v(1) by simp
  moreover have "suite = acc @ concat (map2 seed_block (q # qs) (rest # vss))"
    using v(2) r(1) by (simp add: seed_block_def)
  moreover have "1 \<le> VARIATIONS_PER_QUERY cfg \<longrightarrow>
          (\<forall>vs\<in>set (rest # vss). length vs \<le> nat (VARIATIONS_PER_QUERY cfg - 1))"
    using v(3) r(2) by simp
  ultimately show ?case by blast
qed

lemma length_concat_seed_blocks:
  "length vss = length qs \<Longrightarrow> \<forall>vs\<in>set vss. length vs \<le> n \<Longrightarrow>
     length (concat (map2 seed_block qs vss)) \<le> length qs * Suc n"
proof (induction qs arbitrary: vss)
  case Nil
  then show ?case by simp
next
  case (Cons q qs)
  then obtain vs rest where v: "vss = vs # rest" by (cases vss) auto
  with Cons.prems have "length rest = length qs" "\<forall>vs\<in>set rest. length vs \<le> n" "length vs \<le> n"
    by simp_all
  with Cons.IH [of rest] v show ?case by (simp add: seed_block_def)
qed

lemma concat_seed_blocks_Nil:
  "length vss = length qs \<Longrightarrow> \<forall>vs\<in>set vss. vs = [] \<Longrightarrow>
     concat (map2 seed_block qs vss) = map (\<lambda>q. \<lparr>original = q, variation = q\<rparr>) qs"
proof (induction qs arbitrary: vss)
  case Nil
  then show ?case by simp
next
  case (Cons q qs)
  then obtain vs rest where v: "vss = vs # rest" by (cases vss) auto
  with Cons.prems have "length rest = length qs" "\<forall>vs\<in>set rest. vs = []" "vs = []"
    by simp_all
  with Cons.IH [of rest] v show ?case by (simp add: seed_block_def)
qed

text \<open>The test suite depends on the configuration through \<open>VARIATIONS_PER_QUERY\<close> only.\<close>

lemma generate_test_suite_variations:
  "VARIATIONS_PER_QUERY cfg' = VARIATIONS_PER_QUERY cfg \<Longrightarrow>
     generate_test_suite env cfg' qs acc w = generate_test_suite env cfg qs acc w"
  by (induction qs arbitrary: acc w) (simp_all split: prod.splits)

subsection \<open>The body of the loop\<close>

lemma generate_next_prompt_Continue:
  "\<exists>p' w'. generate_next_prompt env cfg it p m self w = Continue p' self w'"
  by (auto simp: generate_next_prompt_def split: prod.splits)

lemma generate_next_prompt_last:
  "MAX_ITERATIONS cfg \<le> it \<Longrightarrow>
     generate_next_prompt env cfg it p m self w = Continue p self w"
  by (simp add: generate_next_prompt_def)

lemma loop_body_raised:
  "run_iteration env cfg p suite it w = (Inl e, w1) \<Longrightarrow>
     loop_body env cfg suite it p self w = Stop (Raised e) self w1"
  by (simp add: loop_body_def)

lemma loop_body_self:
  assumes "run_iteration env cfg p suite it w = (Inr m, w1)"
  shows "step_self (loop_body env cfg suite it p self w) = after_iteration p m self"
proof -
  obtain p' w' where
    "generate_next_prompt env cfg it p m (after_iteration p m self) w1
       = Continue p' (after_iteration p m self) w'"
    using generate_next_prompt_Continue [of env cfg it p m "after_iteration p m self" w1]
    by blast
  then show ?thesis
    using assms by (simp add: loop_body_def Let_def after_iteration_def split: sum.splits)
qed

lemma loop_body_cases:
  obtains (raised) e w1 where "run_iteration env cfg p suite it w = (Inl e, w1)"
      "loop_body env cfg suite it p self w = Stop (Raised e) self w1"
    | (recorded) m w1 where "run_iteration env cfg p suite it w = (Inr m, w1)"
      "step_self (loop_body env cfg suite it p self w) = after_iteration p m self"
proof -
  obtain r w1 where r: "run_iteration env cfg p suite it w = (r, w1)"
    by (cases "run_iteration env cfg p suite it w")
  show thesis
  proof (cases r)
    case (Inl e)
    with r have h: "run_iteration env cfg p suite it w = (Inl e, w1)" by simp
    show ?thesis by (rule raised [OF h loop_body_raised [OF h]])
  next
    case (Inr m)
    with r have h: "run_iteration env cfg p suite it w = (Inr m, w1)" by simp
    show ?thesis by (rule recorded [OF h loop_body_self [OF h]])
  qed
qed

lemma metrics_history_after_iteration [simp]:
  "metrics_history (after_iteration p m self) = metrics_history self @ [m]"
  by (simp add: after_iteration_def track_best_def)

text \<open>\<open>self.metrics_history[-2]\<close> after the append: the last entry before it.\<close>

lemma py_index_previous:
  "h \<noteq> [] \<Longrightarrow> py_index (h @ [m]) (- 2) = Inr (last h)"
proof -
  assume h: "h \<noteq> []"
  then have "length h \<ge> 1" by (cases h) simp_all
  then have "nat (int (length h) - 1) = length h - 1" by simp
  with h \<open>length h \<ge> 1\<close> show ?thesis
    by (simp add: py_index_def Let_def nth_append last_conv_nth)
qed

lemma loop_body_target:
  assumes "run_iteration env cfg p suite it w = (Inr m, w1)"
    and "overall m \<ge> TARGET_ACCURACY cfg"
  shows "loop_body env cfg suite it p self w = Stop Target_reached (after_iteration p m self) w1"
  using assms by (simp add: loop_body_def Let_def after_iteration_def)

lemma loop_body_plateau:
  assumes "run_iteration env cfg p suite it w = (Inr m, w1)"
    and "overall m < TARGET_ACCURACY cfg"
    and "it > 1" and "metrics_history self \<noteq> []"
    and "overall m - overall (last (metrics_history self)) < MIN_IMPROVEMENT cfg"
  shows "loop_body env cfg suite it p self w = Stop Plateau (after_iteration p m self) w1"
proof -
  have "py_index (metrics_history (after_iteration p m self)) (- 2)
          = Inr (last (metrics_history self))"
    using assms(4) by (simp add: py_index_previous)
  with assms show ?thesis
    by (simp add: loop_body_def Let_def after_iteration_def [symmetric])
qed

lemma loop_body_next:
  assumes "run_iteration env cfg p suite it w = (Inr m, w1)"
    and "overall m < TARGET_ACCURACY cfg"
    and "it > 1 \<longrightarrow> metrics_history self \<noteq> []"
    and "\<not> (it > 1 \<and> overall m - overall (last (metrics_history self)) < MIN_IMPROVEMENT cfg)"
  shows "loop_body env cfg suite it p self w =
           generate_next_prompt env cfg it p m (after_iteration p m self) w1"
proof (cases "it > 1")
  case True
  with assms(3) have "py_index (metrics_history (after_iteration p m self)) (- 2)
          = Inr (last (metrics_history self))"
    by (simp add: py_index_previous)
  with assms True show ?thesis
    by (simp add: loop_body_def Let_def after_iteration_def [symmetric])
next
  case False
  with assms show ?thesis
    by (simp add: loop_body_def Let_def after_iteration_def [symmetric])
qed

text \<open>After a recorded iteration the loop is left by one of the two \<open>break\<close>s, or goes
  on.\<close>

lemma loop_body_recorded_Stop:
  assumes "run_iteration env cfg p suite it w = (Inr m, w1)"
    and "it > 1 \<longrightarrow> metrics_history self \<noteq> []"
    and "loop_body env cfg suite it p self w = Stop how s v"
  shows "how = Target_reached \<or> how = Plateau"
proof (cases "overall m \<ge> TARGET_ACCURACY cfg")
  case True
  from loop_body_target [OF assms(1) True, of self] assms(3) show ?thesis by simp
next
  case False
  then have lt: "overall m < TARGET_ACCURACY cfg" by simp
  show ?thesis
  proof (cases "it > 1 \<and> overall m - overall (last (metrics_history self)) < MIN_IMPROVEMENT cfg")
    case True
    with assms(2) have "metrics_history self \<noteq> []" by simp
    from loop_body_plateau [OF assms(1) lt _ this] True assms(3) show ?thesis by simp
  next
    case False
    from loop_body_next [OF assms(1) lt assms(2) False] assms(3)
      generate_next_prompt_Continue [of env cfg it p m "after_iteration p m self" w1]
    show ?thesis by auto
  qed
qed

lemma after_iteration_best:
  "best_score self \<le> best_score (after_iteration p m self)"
  "overall m > best_score self \<Longrightarrow>
     best_score (after_iteration p m self) = overall m \<and>
     best_prompt (after_iteration p m self) = p"
  "overall m \<le> best_score self \<Longrightarrow>
     best_score (after_iteration p m self) = best_score self \<and>
     best_prompt (after_iteration p m self) = best_prompt self"
  by (simp_all add: after_iteration_def track_best_def)

lemma after_iteration_max:
  "best_score (after_iteration p m self) = max (best_score self) (overall m)"
  by (simp add: after_iteration_def track_best_def max_def)

subsection \<open>The loop\<close>

lemma optimize_loop_unfold:
  "it \<le> MAX_ITERATIONS cfg \<Longrightarrow>
     optimize_loop env cfg suite it p self w =
       (case loop_body env cfg suite it p self w of
          Stop how self' w' \<Rightarrow> (how, self', w')
        | Continue next_prompt self' w' \<Rightarrow>
            optimize_loop env cfg suite (it + 1) next_prompt self' w')"
  by (subst optimize_loop.simps) simp

lemma optimize_loop_exhausted:
  "MAX_ITERATIONS cfg < it \<Longrightarrow>
     optimize_loop env cfg suite it p self w = (Range_exhausted, self, w)"
  by (subst optimize_loop.simps) simp

text \<open>A property of the optimizer that every recorded iteration preserves holds when the
  loop is left.\<close>

lemma optimize_loop_invariant:
  assumes "optimize_loop env cfg suite it p self w = (how, self', w')"
    and "I self"
    and "\<And>self p it w m w1. I self \<Longrightarrow>
            run_iteration env cfg p suite it w = (Inr m, w1) \<Longrightarrow> I (after_iteration p m self)"
  shows "I self'"
  using assms
proof (induction env cfg suite it p self w rule: optimize_loop.induct)
  case (1 env cfg suite it p self w)
  show ?case
  proof (cases "it > MAX_ITERATIONS cfg")
    case True
    with "1.prems" show ?thesis by (simp add: optimize_loop.simps)
  next
    case False
    show ?thesis
    proof (cases "loop_body env cfg suite it p self w")
      case (Stop h s v)
      with False "1.prems" have s: "self' = s" by (simp add: optimize_loop.simps)
      show ?thesis
      proof (cases rule: loop_body_cases [of env cfg p suite it w self])
        case (raised e w1)
        with Stop s "1.prems" show ?thesis by simp
      next
        case (recorded m w1)
        with Stop s have "self' = after_iteration p m self" by simp
        with "1.prems"(3) [OF "1.prems"(2) recorded(1)] show ?thesis by simp
      qed
    next
      case (Continue p' s v)
      with False "1.prems"
      have rec: "optimize_loop env cfg suite (it + 1) p' s v = (how, self', w')"
        by (simp add: optimize_loop.simps)
      have "I s"
      proof (cases rule: loop_body_cases [of env cfg p suite it w self])
        case (raised e w1)
        with Continue show ?thesis by simp
      next
        case (recorded m w1)
        with Continue have "s = after_iteration p m self" by simp
        with "1.prems"(3) [OF "1.prems"(2) recorded(1)] show ?thesis by simp
      qed
      from "1.IH" [OF False Continue rec this "1.prems"(3)] show ?thesis .
    qed
  qed
qed

text \<open>Every entry of the history of a run was computed by \<open>run_iteration\<close> on the test
  suite of the run.\<close>

lemma optimize_history:
  assumes "optimize env cfg TEST_QUERIES INITIAL_PROMPT (init_optimizer cfg INITIAL_PROMPT) w
             = (how, self', w')"
    and "m \<in> set (metrics_history self')"
  shows "\<exists>suite p it w0 w1. run_iteration env cfg p suite it w0 = (Inr m, w1)"
proof -
  obtain suite w1 where g: "generate_test_suite env cfg TEST_QUERIES [] w = (suite, w1)"
    by (cases "generate_test_suite env cfg TEST_QUERIES [] w")
  with assms(1)
  have l: "optimize_loop env cfg suite 1 INITIAL_PROMPT (init_optimizer cfg INITIAL_PROMPT) w1
             = (how, self', w')"
    by (simp add: optimize_def)
  let ?I = "\<lambda>s::optimizer. \<forall>m\<in>set (metrics_history s).
              \<exists>p it w0 w1. run_iteration env cfg p suite it w0 = (Inr m, w1)"
  have "?I self'"
  proof (rule optimize_loop_invariant [OF l, of ?I])
    show "?I (init_optimizer cfg INITIAL_PROMPT)" by (simp add: init_optimizer_def)
  next
    fix self p it w m w1
    assume "?I self" and "run_iteration env cfg p suite it w = (Inr m, w1)"
    then show "?I (after_iteration p m self)" by auto
  qed
  with assms(2) show ?thesis by blast
qed

lemma optimize_loop_best_score:
  assumes "optimize_loop env cfg suite it p self w = (how, self', w')"
  shows "best_score self \<le> best_score self'"
proof -
  let ?I = "\<lambda>s::optimizer. best_score self \<le> best_score s"
  have "?I self'"
  proof (rule optimize_loop_invariant [OF assms, of ?I])
    show "?I self" by simp
  next
    fix s :: optimizer and p it w m w1
    assume "?I s"
    with after_iteration_best(1) [where self = s and p = p and m = m] show "?I (after_iteration p m s)" by simp
  qed
  then show ?thesis .
qed

lemma optimize_best_score_max:
  assumes "optimize env cfg TEST_QUERIES INITIAL_PROMPT (init_optimizer cfg INITIAL_PROMPT) w
             = (how, self', w')"
  shows "best_score self' = Max (insert 0 (overall ` set (metrics_history self')))"
proof -
  obtain suite w1 where g: "generate_test_suite env cfg TEST_QUERIES [] w = (suite, w1)"
    by (cases "generate_test_suite env cfg TEST_QUERIES [] w")
  with assms
  have l: "optimize_loop env cfg suite 1 INITIAL_PROMPT (init_optimizer cfg INITIAL_PROMPT) w1
             = (how, self', w')"
    by (simp add: optimize_def)
  let ?I = "\<lambda>s::optimizer. best_score s = Max (insert 0 (overall ` set (metrics_history s)))"
  have "?I self'"
  proof (rule optimize_loop_invariant [OF l, of ?I])
    show "?I (init_optimizer cfg INITIAL_PROMPT)" by (simp add: init_optimizer_def)
  next
    fix s :: optimizer and p it w m w1
    assume i: "?I s"
    have "Max (insert 0 (overall ` set (metrics_history (after_iteration p m s))))
            = Max (insert (overall m) (insert 0 (overall ` set (metrics_history s))))"
      by (simp add: insert_commute)
    also have "\<dots> = max (overall m) (Max (insert 0 (overall ` set (metrics_history s))))"
      by (rule Max_insert) simp_all
    finally show "?I (after_iteration p m s)"
      using i by (simp add: after_iteration_max max.commute)
  qed
  then show ?thesis .
qed

text \<open>From iteration \<open>it\<close> on, the loop records at most \<open>MAX_ITERATIONS + 1 - it\<close>
  iterations, one less when an iteration raises, and exactly that many when the range
  is exhausted. The history is never indexed outside its bounds.\<close>

lemma optimize_loop_iterations:
  assumes "optimize_loop env cfg suite it p self w = (how, self', w')"
    and "it > 1 \<longrightarrow> metrics_history self \<noteq> []"
    and "it \<le> MAX_ITERATIONS cfg + 1"
  shows "length (metrics_history self') + raised how
           \<le> length (metrics_history self) + nat (MAX_ITERATIONS cfg + 1 - it) \<and>
         (how = Range_exhausted \<longrightarrow>
            length (metrics_history self')
              = length (metrics_history self) + nat (MAX_ITERATIONS cfg + 1 - it)) \<and>
         how \<noteq> Raised IndexError"
  using assms
proof (induction env cfg suite it p self w rule: optimize_loop.induct)
  case (1 env cfg suite it p self w)
  show ?case
  proof (cases "it > MAX_ITERATIONS cfg")
    case True
    with "1.prems"(1) have "how = Range_exhausted" "self' = self"
      by (simp_all add: optimize_loop_exhausted)
    with True "1.prems"(3) show ?thesis by simp
  next
    case False
    then have le: "it \<le> MAX_ITERATIONS cfg" by simp
    then have budget: "nat (MAX_ITERATIONS cfg + 1 - it)
                         = Suc (nat (MAX_ITERATIONS cfg + 1 - (it + 1)))" by simp
    show ?thesis
    proof (cases rule: loop_body_cases [of env cfg p suite it w self])
      case (raised e w1)
      with le "1.prems"(1) have "how = Raised e" "self' = self"
        by (simp_all add: optimize_loop_unfold)
      moreover from raised(1) have "e = JSONDecodeError" by (rule run_iteration_error)
      ultimately show ?thesis using budget by simp
    next
      case (recorded m w1)
      show ?thesis
      proof (cases "loop_body env cfg suite it p self w")
        case (Stop h s v)
        with le "1.prems"(1) have hs: "how = h" "self' = s"
          by (simp_all add: optimize_loop_unfold)
        from recorded(2) Stop have s: "s = after_iteration p m self" by simp
        from loop_body_recorded_Stop [OF recorded(1) "1.prems"(2) Stop]
        have "h = Target_reached \<or> h = Plateau" .
        with hs s budget show ?thesis by auto
      next
        case (Continue p' s v)
        with le "1.prems"(1)
        have rec: "optimize_loop env cfg suite (it + 1) p' s v = (how, self', w')"
          by (simp add: optimize_loop_unfold)
        from recorded(2) Continue have s: "s = after_iteration p m self" by simp
        then have ne: "it + 1 > 1 \<longrightarrow> metrics_history s \<noteq> []" by simp
        from le have "it + 1 \<le> MAX_ITERATIONS cfg + 1" by simp
        from "1.IH" [OF False Continue rec ne this] s budget
        show ?thesis by simp
      qed
    qed
  qed
qed

subsection \<open>The concrete runs\<close>

lemma demo_config_fields:
  "MAX_ITERATIONS demo_config = 5" "TARGET_ACCURACY demo_config = 0.90"
  "MIN_IMPROVEMENT demo_config = 0.02" "FUNCTION_WEIGHT demo_config = 0.03"
  "PARAMETER_WEIGHT demo_config = 0.84375" "USE_PERPLEXITY demo_config = True"
  "VARIATIONS_PER_QUERY demo_config = 1" "PRIMARY_MODEL demo_config = CLAUDE"
  by (simp_all add: demo_config_def)

lemma demo_fields:
  "overall demo_metrics1 = 0.675" "overall demo_metrics2 = 0.70"
  "overall demo_metrics3 = 0.705"
  "metrics_history demo_state1 = [demo_metrics1]"
  "metrics_history demo_state2 = [demo_metrics1, demo_metrics2]"
  "metrics_history demo_final = [demo_metrics1, demo_metrics2, demo_metrics3]"
  "best_score demo_state1 = 0.675" "best_score demo_state2 = 0.70"
  "best_score demo_final = 0.705"
  "best_prompt demo_state1 = ''p''" "best_prompt demo_state2 = ''p!''"
  "best_prompt demo_final = ''p!!''"
  by (simp_all add: demo_metrics1_def demo_metrics2_def demo_metrics3_def demo_state1_def
      demo_state2_def demo_final_def)

lemma failing_fields:
  "overall (failing_metrics it) = 0.675" "best_score failing_state1 = 0.675"
  "best_prompt failing_state1 = ''p''"
  "metrics_history failing_state1 = [failing_metrics 1]"
  by (simp_all add: failing_metrics_def failing_state1_def)

lemma py_strip_demo_prompt: "py_strip ''p! '' = ''p!''"
  by (simp add: py_strip_def py_isspace_def)

lemma demo_generate_test_suite:
  "generate_test_suite demo_env demo_config demo_queries [] 0 = (demo_suite, 6)"
  by code_simp

lemma demo_generate_test_suite3:
  "generate_test_suite demo_env (demo_config\<lparr>VARIATIONS_PER_QUERY := 3\<rparr>) [''a'', ''b''] [] 0
     = (seed_block ''a'' [''a please'', ''a now''] @ seed_block ''b'' [''b please'', ''b now''], 2)"
  by code_simp

lemma demo_run_iteration1:
  "run_iteration demo_env demo_config ''p'' demo_suite 1 6 = (Inr demo_metrics1, 18)"
  by code_simp

lemma demo_run_iteration2:
  "run_iteration demo_env demo_config ''p!'' demo_suite 2 20 = (Inr demo_metrics2, 32)"
  by code_simp

lemma demo_run_iteration3:
  "run_iteration demo_env demo_config ''p!!'' demo_suite 3 33 = (Inr demo_metrics3, 45)"
  by code_simp

lemma demo_after_iteration1:
  "after_iteration ''p'' demo_metrics1 (init_optimizer demo_config ''p'') = demo_state1"
  by (simp add: after_iteration_def track_best_def init_optimizer_def demo_config_def
      demo_state1_def demo_metrics1_def)

lemma demo_after_iteration2:
  "after_iteration ''p!'' demo_metrics2 demo_state1 = demo_state2"
  by (simp add: after_iteration_def track_best_def demo_state1_def demo_state2_def
      demo_metrics2_def)

lemma demo_after_iteration3:
  "after_iteration ''p!!'' demo_metrics3 demo_state2 = demo_final"
  by (simp add: after_iteration_def track_best_def demo_state2_def demo_final_def
      demo_metrics3_def)

lemma demo_generate_next_prompt1:
  "generate_next_prompt demo_env demo_config 1 ''p'' demo_metrics1 demo_state1 18
     = Continue ''p!'' demo_state1 20"
  by (simp add: generate_next_prompt_def research_optimization_strategies_def
      optimize_prompt_def demo_env_def demo_config_def demo_state1_def py_strip_demo_prompt)

lemma demo_generate_next_prompt2:
  "generate_next_prompt demo_env demo_config 2 ''p!'' demo_metrics2 demo_state2 32
     = Continue ''p!!'' demo_state2 33"
  by (simp add: generate_next_prompt_def optimize_prompt_def demo_env_def demo_config_def
      py_strip_def py_isspace_def)

lemma demo_loop_body1:
  "loop_body demo_env demo_config demo_suite 1 ''p'' (init_optimizer demo_config ''p'') 6
     = Continue ''p!'' demo_state1 20"
proof -
  have "loop_body demo_env demo_config demo_suite 1 ''p'' (init_optimizer demo_config ''p'') 6
          = generate_next_prompt demo_env demo_config 1 ''p'' demo_metrics1
              (after_iteration ''p'' demo_metrics1 (init_optimizer demo_config ''p'')) 18"
    by (rule loop_body_next [OF demo_run_iteration1])
       (simp_all add: demo_config_fields demo_fields)
  then show ?thesis
    by (simp add: demo_after_iteration1 demo_generate_next_prompt1)
qed

text \<open>The run of \<open>demo_env\<close> under \<open>demo_config\<close>, iteration by iteration.\<close>

lemma demo_optimize_loop3:
  "optimize_loop demo_env demo_config demo_suite 3 ''p!!'' demo_state2 33
     = (Plateau, demo_final, 45)"
proof -
  have "loop_body demo_env demo_config demo_suite 3 ''p!!'' demo_state2 33
          = Stop Plateau (after_iteration ''p!!'' demo_metrics3 demo_state2) 45"
    by (rule loop_body_plateau [OF demo_run_iteration3])
       (simp_all add: demo_config_fields demo_fields)
  then show ?thesis
    by (simp add: optimize_loop_unfold demo_after_iteration3 demo_config_fields)
qed

lemma demo_optimize_loop2:
  "optimize_loop demo_env demo_config demo_suite 2 ''p!'' demo_state1 20
     = (Plateau, demo_final, 45)"
proof -
  have "loop_body demo_env demo_config demo_suite 2 ''p!'' demo_state1 20
          = generate_next_prompt demo_env demo_config 2 ''p!'' demo_metrics2
              (after_iteration ''p!'' demo_metrics2 demo_state1) 32"
    by (rule loop_body_next [OF demo_run_iteration2])
       (simp_all add: demo_config_fields demo_fields)
  then show ?thesis
    by (simp add: optimize_loop_unfold demo_after_iteration2 demo_generate_next_prompt2
        demo_optimize_loop3 demo_config_fields)
qed

lemma demo_optimize_loop1:
  "optimize_loop demo_env demo_config demo_suite 1 ''p'' (init_optimizer demo_config ''p'') 6
     = (Plateau, demo_final, 45)"
proof -
  have "loop_body demo_env demo_config demo_suite 1 ''p'' (init_optimizer demo_config ''p'') 6
          = generate_next_prompt demo_env demo_config 1 ''p'' demo_metrics1
              (after_iteration ''p'' demo_metrics1 (init_optimizer demo_config ''p'')) 18"
    by (rule loop_body_next [OF demo_run_iteration1])
       (simp_all add: demo_config_fields demo_fields)
  then show ?thesis
    by (simp add: optimize_loop_unfold demo_after_iteration1 demo_generate_next_prompt1
        demo_optimize_loop2 demo_config_fields)
qed

lemma demo_optimize:
  "optimize demo_env demo_config demo_queries ''p'' (init_optimizer demo_config ''p'') 0
     = (Plateau, demo_final, 45)"
  by (simp add: optimize_def demo_generate_test_suite demo_optimize_loop1)

text \<open>The same model with a budget of two iterations: the range is exhausted.\<close>

lemma demo_exhausted:
  "optimize demo_env (demo_config\<lparr>MAX_ITERATIONS := 2\<rparr>) demo_queries ''p''
     (init_optimizer (demo_config\<lparr>MAX_ITERATIONS := 2\<rparr>) ''p'') 0
     = (Range_exhausted, demo_state2, 32)"
proof -
  let ?cfg = "demo_config\<lparr>MAX_ITERATIONS := 2\<rparr>"
  have i: "init_optimizer ?cfg ''p'' = init_optimizer demo_config ''p''"
    by (simp add: init_optimizer_def)
  have g: "generate_test_suite demo_env ?cfg demo_queries [] 0 = (demo_suite, 6)"
    by (simp add: generate_test_suite_variations [of _ demo_config] demo_generate_test_suite)
  have r1: "run_iteration demo_env ?cfg ''p'' demo_suite 1 6 = (Inr demo_metrics1, 18)"
    by (simp add: run_iteration_weights [of _ demo_config] demo_run_iteration1)
  have r2: "run_iteration demo_env ?cfg ''p!'' demo_suite 2 20 = (Inr demo_metrics2, 32)"
    by (simp add: run_iteration_weights [of _ demo_config] demo_run_iteration2)
  have n1: "generate_next_prompt demo_env ?cfg 1 ''p'' demo_metrics1 demo_state1 18
              = Continue ''p!'' demo_state1 20"
    by (simp add: generate_next_prompt_def research_optimization_strategies_def
        optimize_prompt_def demo_env_def demo_config_def demo_state1_def py_strip_demo_prompt)
  have "loop_body demo_env ?cfg demo_suite 1 ''p'' (init_optimizer demo_config ''p'') 6
          = generate_next_prompt demo_env ?cfg 1 ''p'' demo_metrics1
              (after_iteration ''p'' demo_metrics1 (init_optimizer demo_config ''p'')) 18"
    by (rule loop_body_next [OF r1]) (simp_all add: demo_config_fields demo_fields)
  then have b1: "loop_body demo_env ?cfg demo_suite 1 ''p'' (init_optimizer demo_config ''p'') 6
          = Continue ''p!'' demo_state1 20"
    by (simp add: demo_after_iteration1 n1)
  have "loop_body demo_env ?cfg demo_suite 2 ''p!'' demo_state1 20
          = generate_next_prompt demo_env ?cfg 2 ''p!'' demo_metrics2
              (after_iteration ''p!'' demo_metrics2 demo_state1) 32"
    by (rule loop_body_next [OF r2]) (simp_all add: demo_config_fields demo_fields)
  then have b2: "loop_body demo_env ?cfg demo_suite 2 ''p!'' demo_state1 20
          = Continue ''p!'' demo_state2 32"
    by (simp add: demo_after_iteration2 generate_next_prompt_last)
  have "optimize_loop demo_env ?cfg demo_suite 3 ''p!'' demo_state2 32
          = (Range_exhausted, demo_state2, 32)"
    by (simp add: optimize_loop_exhausted)
  with b2 have "optimize_loop demo_env ?cfg demo_suite 2 ''p!'' demo_state1 20
          = (Range_exhausted, demo_state2, 32)"
    by (simp add: optimize_loop_unfold)
  with b1 have "optimize_loop demo_env ?cfg demo_suite 1 ''p'' (init_optimizer demo_config ''p'') 6
          = (Range_exhausted, demo_state2, 32)"
    by (simp add: optimize_loop_unfold)
  with g i show ?thesis by (simp add: optimize_def)
qed

lemma demo_rewriter_call:
  "rewriter_call demo_env demo_config ''p'' demo_metrics1 '''' 7 = (Some ''p! '', 8)"
  by (simp add: rewriter_call_def demo_env_def)

text \<open>The run of \<open>failing_env\<close> on one query: the rewrite fails, the second iteration
  evaluates the initial prompt again, and its score is no improvement.\<close>

lemma failing_generate_test_suite:
  "generate_test_suite failing_env demo_config [''q''] [] 0 = (failing_suite, 1)"
  by (simp add: generate_query_variations_def failing_env_def failing_suite_def)

lemma failing_run_iteration1:
  "run_iteration failing_env demo_config ''p'' failing_suite 1 1 = (Inr (failing_metrics 1), 3)"
  by (simp add: run_iteration_eq call_voice_assistant_def get_expected_function_def
      failing_env_def failing_suite_def failing_metrics_def demo_config_fields)

lemma failing_run_iteration2:
  "run_iteration failing_env demo_config ''p'' failing_suite 2 5 = (Inr (failing_metrics 2), 7)"
  by (simp add: run_iteration_eq call_voice_assistant_def get_expected_function_def
      failing_env_def failing_suite_def failing_metrics_def demo_config_fields)

lemma failing_after_iteration1:
  "after_iteration ''p'' (failing_metrics 1) (init_optimizer demo_config ''p'') = failing_state1"
  by (simp add: after_iteration_def track_best_def init_optimizer_def demo_config_def
      failing_state1_def failing_metrics_def)

lemma failing_after_iteration2:
  "after_iteration ''p'' (failing_metrics 2) failing_state1 = failing_final"
  by (simp add: after_iteration_def track_best_def failing_state1_def failing_final_def
      failing_metrics_def)

lemma failing_research:
  "(if USE_PERPLEXITY demo_config \<and> (1::int) = 1
    then research_optimization_strategies failing_env demo_config failing_state1
           (failing_metrics 1) 3
    else ('''', 3)) = ('''', 4)"
  by (simp add: research_optimization_strategies_def failing_env_def demo_config_def
      failing_state1_def)

lemma failing_rewriter_call:
  "rewriter_call failing_env demo_config ''p'' (failing_metrics 1) '''' 4 = (None, 5)"
  by (simp add: rewriter_call_def failing_env_def)

lemma failing_generate_next_prompt1:
  "generate_next_prompt failing_env demo_config 1 ''p'' (failing_metrics 1) failing_state1 3
     = Continue ''p'' failing_state1 5"
  by (simp add: generate_next_prompt_def research_optimization_strategies_def
      optimize_prompt_def failing_env_def demo_config_def failing_state1_def)

lemma failing_optimize:
  "optimize failing_env demo_config [''q''] ''p'' (init_optimizer demo_config ''p'') 0
     = (Plateau, failing_final, 7)"
proof -
  have "loop_body failing_env demo_config failing_suite 1 ''p''
          (init_optimizer demo_config ''p'') 1
          = generate_next_prompt failing_env demo_config 1 ''p'' (failing_metrics 1)
              (after_iteration ''p'' (failing_metrics 1) (init_optimizer demo_config ''p'')) 3"
    by (rule loop_body_next [OF failing_run_iteration1])
       (simp_all add: demo_config_fields failing_fields)
  then have b1: "loop_body failing_env demo_config failing_suite 1 ''p''
          (init_optimizer demo_config ''p'') 1 = Continue ''p'' failing_state1 5"
    by (simp add: failing_after_iteration1 failing_generate_next_prompt1)
  have b2: "loop_body failing_env demo_config failing_suite 2 ''p'' failing_state1 5
          = Stop Plateau (after_iteration ''p'' (failing_metrics 2) failing_state1) 7"
    by (rule loop_body_plateau [OF failing_run_iteration2])
       (simp_all add: demo_config_fields failing_fields)
  from b2 have "optimize_loop failing_env demo_config failing_suite 2 ''p'' failing_state1 5
          = (Plateau, failing_final, 7)"
    by (simp add: optimize_loop_unfold failing_after_iteration2 demo_config_fields)
  with b1 have "optimize_loop failing_env demo_config failing_suite 1 ''p''
          (init_optimizer demo_config ''p'') 1 = (Plateau, failing_final, 7)"
    by (simp add: optimize_loop_unfold demo_config_fields)
  then show ?thesis
    unfolding optimize_def failing_generate_test_suite by simp
qed

section \<open>The claims\<close>

subsection \<open>C1: the overall score\<close>

text \<open>
  C1. In every entry of the metrics history of a run, the overall score is
  \<open>function_acc * FUNCTION_WEIGHT + 0.8 * PARAMETER_WEIGHT\<close>, where \<open>function_acc\<close> is
  the number of correct evaluations divided by their number (0 when there is none). The
  score is a function of the function accuracy and of the two weights, and nothing is
  asked of the weights: they need not sum to 1.
\<close>

theorem overall_score_formula:
  assumes "optimize env cfg TEST_QUERIES INITIAL_PROMPT (init_optimizer cfg INITIAL_PROMPT) w
             = (how, self', w')"
    and "m \<in> set (metrics_history self')"
  shows "overall m = function_acc m * FUNCTION_WEIGHT cfg + 0.8 * PARAMETER_WEIGHT cfg \<and>
         function_acc m =
           (if length (evaluations m) > 0
            then real (length (filter evaluation.correct (evaluations m)))
                   / real (length (evaluations m))
            else 0)"
proof -
  from optimize_history [OF assms] obtain suite p it w0 w1 where
    r: "run_iteration env cfg p suite it w0 = (Inr m, w1)" by blast
  show ?thesis
    using run_iteration_metrics(1-4) [OF r] by simp
qed

text \<open>The second iteration of the concrete run: five of six evaluations are correct, the
  weights are 0.03 and 0.84375.\<close>

theorem overall_score_formula_witness:
  "optimize demo_env demo_config demo_queries ''p'' (init_optimizer demo_config ''p'') 0
     = (Plateau, demo_final, 45) \<and>
   demo_metrics2 \<in> set (metrics_history demo_final) \<and>
   FUNCTION_WEIGHT demo_config + PARAMETER_WEIGHT demo_config \<noteq> 1 \<and>
   function_acc demo_metrics2 = 5 / 6 \<and>
   overall demo_metrics2 = 5 / 6 * 0.03 + 0.8 * 0.84375"
proof -
  have mem: "demo_metrics2 \<in> set (metrics_history demo_final)"
    by (simp add: demo_final_def)
  from overall_score_formula [OF demo_optimize mem] demo_optimize mem
  show ?thesis
    by (simp add: demo_config_def demo_metrics2_def)
qed

subsection \<open>C2: the flag of an evaluation\<close>

text \<open>
  C2. In every evaluation of every entry of the metrics history of a run, the field
  \<open>correct\<close> is the truth value of \<open>actual == expected\<close>. The expected function is
  always a string and equality is equality of values, so an evaluation whose actual
  function is \<open>None\<close> is not correct, whatever string is expected.
\<close>

theorem evaluation_correct_field:
  assumes "optimize env cfg TEST_QUERIES INITIAL_PROMPT (init_optimizer cfg INITIAL_PROMPT) w
             = (how, self', w')"
    and "m \<in> set (metrics_history self')"
    and "e \<in> set (evaluations m)"
  shows "evaluation.correct e = (actual e = PyStr (expected e)) \<and>
         (actual e = PyNone \<longrightarrow> \<not> evaluation.correct e)"
proof -
  from optimize_history [OF assms(1,2)] obtain suite p it w0 w1 where
    r: "run_iteration env cfg p suite it w0 = (Inr m, w1)" by blast
  from run_iteration_metrics(6) [OF r] assms(3)
  have "evaluation.correct e = (actual e = PyStr (expected e))" by blast
  then show ?thesis by auto
qed

text \<open>The sixth evaluation of the second iteration of the concrete run: the call of the
  assistant failed.\<close>

theorem evaluation_correct_field_witness:
  "optimize demo_env demo_config demo_queries ''p'' (init_optimizer demo_config ''p'') 0
     = (Plateau, demo_final, 45) \<and>
   demo_metrics2 \<in> set (metrics_history demo_final) \<and>
   evaluations demo_metrics2 ! 5 \<in> set (evaluations demo_metrics2) \<and>
   actual (evaluations demo_metrics2 ! 5) = PyNone \<and>
   expected (evaluations demo_metrics2 ! 5) = ''answer_question'' \<and>
   \<not> evaluation.correct (evaluations demo_metrics2 ! 5)"
proof -
  have mem: "demo_metrics2 \<in> set (metrics_history demo_final)"
    by (simp add: demo_final_def)
  have e: "evaluations demo_metrics2 ! 5 \<in> set (evaluations demo_metrics2)"
    by (simp add: demo_metrics2_def demo_evaluations_def demo_queries_def)
  from evaluation_correct_field [OF demo_optimize mem e] demo_optimize mem e
  show ?thesis
    by (simp add: demo_metrics2_def demo_evaluations_def demo_queries_def)
qed

subsection \<open>C3: the best score and the best prompt\<close>

text \<open>
  C3. The tracked best score never decreases: over any stretch of the loop, and over
  each single iteration. An iteration changes it only when its overall score is strictly
  greater; then the best score is that overall score and the best prompt is the prompt
  that the iteration evaluated, whatever prompt the rewrite produces for the next
  iteration. Otherwise best score and best prompt stay. At the end of a run the best
  score is the greatest overall score of the history, or 0 when none exceeds 0.
\<close>

theorem best_score_tracking:
  "(optimize_loop env cfg suite it p self w = (how, self', w') \<longrightarrow>
      best_score self \<le> best_score self') \<and>
   (run_iteration env cfg p suite it w = (Inr m, w1) \<longrightarrow>
      metrics_history (step_self (loop_body env cfg suite it p self w))
        = metrics_history self @ [m] \<and>
      best_score self \<le> best_score (step_self (loop_body env cfg suite it p self w)) \<and>
      (overall m > best_score self \<longrightarrow>
         best_score (step_self (loop_body env cfg suite it p self w)) = overall m \<and>
         best_prompt (step_self (loop_body env cfg suite it p self w)) = p) \<and>
      (overall m \<le> best_score self \<longrightarrow>
         best_score (step_self (loop_body env cfg suite it p self w)) = best_score self \<and>
         best_prompt (step_self (loop_body env cfg suite it p self w)) = best_prompt self)) \<and>
   (optimize env cfg TEST_QUERIES INITIAL_PROMPT (init_optimizer cfg INITIAL_PROMPT) w
      = (how, self', w') \<longrightarrow>
      best_score self' = Max (insert 0 (overall ` set (metrics_history self'))))"
proof -
  have "best_score self \<le> best_score self'"
    if "optimize_loop env cfg suite it p self w = (how, self', w')"
    using that by (rule optimize_loop_best_score)
  moreover have "metrics_history (step_self (loop_body env cfg suite it p self w))
        = metrics_history self @ [m] \<and>
      best_score self \<le> best_score (step_self (loop_body env cfg suite it p self w)) \<and>
      (overall m > best_score self \<longrightarrow>
         best_score (step_self (loop_body env cfg suite it p self w)) = overall m \<and>
         best_prompt (step_self (loop_body env cfg suite it p self w)) = p) \<and>
      (overall m \<le> best_score self \<longrightarrow>
         best_score (step_self (loop_body env cfg suite it p self w)) = best_score self \<and>
         best_prompt (step_self (loop_body env cfg suite it p self w)) = best_prompt self)"
    if "run_iteration env cfg p suite it w = (Inr m, w1)"
    using loop_body_self [OF that, of self]
      after_iteration_best [where self = self and p = p and m = m] by simp
  moreover have "best_score self' = Max (insert 0 (overall ` set (metrics_history self')))"
    if "optimize env cfg TEST_QUERIES INITIAL_PROMPT (init_optimizer cfg INITIAL_PROMPT) w
          = (how, self', w')"
    using that by (rule optimize_best_score_max)
  ultimately show ?thesis by blast
qed

text \<open>The concrete run as a whole; its first iteration, whose prompt \<open>p\<close> becomes the
  best prompt while the next iteration gets the rewritten one; and a second iteration
  under the failing model, whose score only equals the best.\<close>

theorem best_score_tracking_witness:
  "optimize_loop demo_env demo_config demo_suite 1 ''p'' (init_optimizer demo_config ''p'') 6
     = (Plateau, demo_final, 45) \<and>
   best_score (init_optimizer demo_config ''p'') \<le> best_score demo_final \<and>
   run_iteration demo_env demo_config ''p'' demo_suite 1 6 = (Inr demo_metrics1, 18) \<and>
   best_score (init_optimizer demo_config ''p'') < overall demo_metrics1 \<and>
   loop_body demo_env demo_config demo_suite 1 ''p'' (init_optimizer demo_config ''p'') 6
     = Continue ''p!'' demo_state1 20 \<and>
   best_score demo_state1 = overall demo_metrics1 \<and>
   best_prompt demo_state1 = ''p'' \<and>
   run_iteration failing_env demo_config ''p'' failing_suite 2 5
     = (Inr (failing_metrics 2), 7) \<and>
   overall (failing_metrics 2) \<le> best_score failing_state1 \<and>
   best_score (step_self (loop_body failing_env demo_config failing_suite 2 ''p''
     failing_state1 5)) = 0.675 \<and>
   best_prompt (step_self (loop_body failing_env demo_config failing_suite 2 ''p''
     failing_state1 5)) = ''p'' \<and>
   optimize demo_env demo_config demo_queries ''p'' (init_optimizer demo_config ''p'') 0
     = (Plateau, demo_final, 45) \<and>
   Max (insert 0 (overall ` set (metrics_history demo_final))) = 0.705"
proof -
  have z: "best_score (init_optimizer demo_config ''p'') = 0"
    by (simp add: init_optimizer_def)
  from best_score_tracking
         [where env = demo_env and cfg = demo_config and suite = demo_suite and it = 1
            and p = "''p''" and self = "init_optimizer demo_config ''p''" and w = 6
            and how = Plateau and self' = demo_final and w' = 45]
       demo_optimize_loop1
  have a: "best_score (init_optimizer demo_config ''p'') \<le> best_score demo_final" by simp
  from best_score_tracking
         [where env = demo_env and cfg = demo_config and suite = demo_suite and it = 1
            and p = "''p''" and self = "init_optimizer demo_config ''p''" and w = 6
            and m = demo_metrics1 and ?w1.0 = 18]
       demo_run_iteration1 demo_loop_body1 z
  have b: "best_score demo_state1 = overall demo_metrics1 \<and> best_prompt demo_state1 = ''p''"
    by (simp add: demo_fields)
  from best_score_tracking
         [where env = failing_env and cfg = demo_config and suite = failing_suite and it = 2
            and p = "''p''" and self = failing_state1 and w = 5
            and m = "failing_metrics 2" and ?w1.0 = 7]
       failing_run_iteration2
  have c: "best_score (step_self (loop_body failing_env demo_config failing_suite 2 ''p''
             failing_state1 5)) = 0.675 \<and>
           best_prompt (step_self (loop_body failing_env demo_config failing_suite 2 ''p''
             failing_state1 5)) = ''p''"
    by (simp add: failing_fields)
  from best_score_tracking
         [where env = demo_env and cfg = demo_config and TEST_QUERIES = demo_queries
            and INITIAL_PROMPT = "''p''" and w = 0
            and how = Plateau and self' = demo_final and w' = 45]
       demo_optimize
  have d: "Max (insert 0 (overall ` set (metrics_history demo_final))) = 0.705"
    by (simp add: demo_fields)
  from a b c d demo_optimize_loop1 demo_run_iteration1 demo_loop_body1
    failing_run_iteration2 demo_optimize
  show ?thesis by (simp add: z demo_fields failing_fields)
qed

subsection \<open>C4: the order of the stopping rules\<close>

text \<open>
  C4. Let an iteration \<open>it \<le> MAX_ITERATIONS\<close> produce the metrics \<open>m\<close>, the history
  holding the metrics of the previous iteration when \<open>it > 1\<close>. Then, in this order:
  if \<open>overall \<ge> TARGET_ACCURACY\<close> the loop is left, the target reached; otherwise, if
  \<open>it > 1\<close> and the overall score minus the one of the previous iteration is below
  \<open>MIN_IMPROVEMENT\<close>, the loop is left on a plateau; otherwise, if
  \<open>it = MAX_ITERATIONS\<close>, the range is exhausted and the loop ends; otherwise the loop
  goes on with iteration \<open>it + 1\<close> and the prompt that \<open>generate_next_prompt\<close> hands
  over. In particular, with \<open>MIN_IMPROVEMENT = 0.02\<close>, a previous overall score of 0.70
  and an overall score of 0.705 in iteration 3, below the target, the loop is left on a
  plateau after iteration 3.
\<close>

theorem stopping_rules:
  assumes "run_iteration env cfg p suite it w = (Inr m, w1)"
    and "it \<le> MAX_ITERATIONS cfg"
    and "it > 1 \<longrightarrow> metrics_history self \<noteq> []"
  shows
    "(overall m \<ge> TARGET_ACCURACY cfg \<longrightarrow>
        optimize_loop env cfg suite it p self w
          = (Target_reached, after_iteration p m self, w1)) \<and>
     (overall m < TARGET_ACCURACY cfg \<and> it > 1 \<and>
      overall m - overall (last (metrics_history self)) < MIN_IMPROVEMENT cfg \<longrightarrow>
        optimize_loop env cfg suite it p self w
          = (Plateau, after_iteration p m self, w1)) \<and>
     (overall m < TARGET_ACCURACY cfg \<and>
      \<not> (it > 1 \<and> overall m - overall (last (metrics_history self)) < MIN_IMPROVEMENT cfg) \<and>
      it = MAX_ITERATIONS cfg \<longrightarrow>
        optimize_loop env cfg suite it p self w
          = (Range_exhausted, after_iteration p m self, w1)) \<and>
     (overall m < TARGET_ACCURACY cfg \<and>
      \<not> (it > 1 \<and> overall m - overall (last (metrics_history self)) < MIN_IMPROVEMENT cfg) \<and>
      it < MAX_ITERATIONS cfg \<longrightarrow>
        (\<exists>next_prompt w2.
           generate_next_prompt env cfg it p m (after_iteration p m self) w1
             = Continue next_prompt (after_iteration p m self) w2 \<and>
           optimize_loop env cfg suite it p self w
             = optimize_loop env cfg suite (it + 1) next_prompt (after_iteration p m self) w2)) \<and>
     (MIN_IMPROVEMENT cfg = 0.02 \<and> it = 3 \<and> overall (last (metrics_history self)) = 0.70 \<and>
      overall m = 0.705 \<and> 0.705 < TARGET_ACCURACY cfg \<longrightarrow>
        optimize_loop env cfg suite it p self w
          = (Plateau, after_iteration p m self, w1))"
proof -
  let ?s = "after_iteration p m self"
  let ?plateau = "it > 1 \<and> overall m - overall (last (metrics_history self)) < MIN_IMPROVEMENT cfg"
  have target: "optimize_loop env cfg suite it p self w = (Target_reached, ?s, w1)"
    if "overall m \<ge> TARGET_ACCURACY cfg"
    using loop_body_target [OF assms(1) that, of self] assms(2)
    by (simp add: optimize_loop_unfold)
  have plateau: "optimize_loop env cfg suite it p self w = (Plateau, ?s, w1)"
    if "overall m < TARGET_ACCURACY cfg" and "?plateau"
  proof -
    from that(2) assms(3) have "metrics_history self \<noteq> []" by simp
    from loop_body_plateau [OF assms(1) that(1) _ this] that(2) assms(2)
    show ?thesis by (simp add: optimize_loop_unfold)
  qed
  have exhausted: "optimize_loop env cfg suite it p self w = (Range_exhausted, ?s, w1)"
    if "overall m < TARGET_ACCURACY cfg" and "\<not> ?plateau" and "it = MAX_ITERATIONS cfg"
  proof -
    from loop_body_next [OF assms(1) that(1) assms(3) that(2)] that(3)
    have "loop_body env cfg suite it p self w = Continue p ?s w1"
      by (simp add: generate_next_prompt_last)
    with assms(2) that(3) show ?thesis
      by (simp add: optimize_loop_unfold optimize_loop_exhausted)
  qed
  have continue: "\<exists>next_prompt w2.
           generate_next_prompt env cfg it p m ?s w1 = Continue next_prompt ?s w2 \<and>
           optimize_loop env cfg suite it p self w
             = optimize_loop env cfg suite (it + 1) next_prompt ?s w2"
    if "overall m < TARGET_ACCURACY cfg" and "\<not> ?plateau"
  proof -
    from generate_next_prompt_Continue [of env cfg it p m ?s w1] obtain p' w2 where
      g: "generate_next_prompt env cfg it p m ?s w1 = Continue p' ?s w2" by blast
    with loop_body_next [OF assms(1) that(1) assms(3) that(2)]
    have "loop_body env cfg suite it p self w = Continue p' ?s w2" by simp
    with assms(2)
    have "optimize_loop env cfg suite it p self w
            = optimize_loop env cfg suite (it + 1) p' ?s w2"
      by (simp add: optimize_loop_unfold)
    with g show ?thesis by blast
  qed
  have scenario: "optimize_loop env cfg suite it p self w = (Plateau, ?s, w1)"
    if "MIN_IMPROVEMENT cfg = 0.02" and "it = 3"
      and "overall (last (metrics_history self)) = 0.70"
      and "overall m = 0.705" and "0.705 < TARGET_ACCURACY cfg"
  proof (rule plateau)
    show "overall m < TARGET_ACCURACY cfg" using that by simp
    show "?plateau" using that by simp
  qed
  from target plateau exhausted continue scenario show ?thesis by blast
qed

text \<open>The third iteration of the concrete run is the scenario; its first iteration goes
  on, reaches a target of 0.5, and exhausts a range of one iteration.\<close>

theorem stopping_rules_witness:
  "run_iteration demo_env demo_config ''p!!'' demo_suite 3 33 = (Inr demo_metrics3, 45) \<and>
   3 \<le> MAX_ITERATIONS demo_config \<and>
   metrics_history demo_state2 \<noteq> [] \<and>
   MIN_IMPROVEMENT demo_config = 0.02 \<and>
   overall (last (metrics_history demo_state2)) = 0.70 \<and>
   overall demo_metrics3 = 0.705 \<and>
   0.705 < TARGET_ACCURACY demo_config \<and>
   optimize_loop demo_env demo_config demo_suite 3 ''p!!'' demo_state2 33
     = (Plateau, demo_final, 45) \<and>
   optimize_loop demo_env demo_config demo_suite 1 ''p'' (init_optimizer demo_config ''p'') 6
     = optimize_loop demo_env demo_config demo_suite 2 ''p!'' demo_state1 20 \<and>
   optimize_loop demo_env (demo_config\<lparr>TARGET_ACCURACY := 0.5\<rparr>) demo_suite 1 ''p''
       (init_optimizer demo_config ''p'') 6
     = (Target_reached, demo_state1, 18) \<and>
   optimize_loop demo_env (demo_config\<lparr>MAX_ITERATIONS := 1\<rparr>) demo_suite 1 ''p''
       (init_optimizer demo_config ''p'') 6
     = (Range_exhausted, demo_state1, 18)"
proof -
  have h: "3 \<le> MAX_ITERATIONS demo_config" "metrics_history demo_state2 \<noteq> []"
      "MIN_IMPROVEMENT demo_config = 0.02" "overall (last (metrics_history demo_state2)) = 0.70"
      "overall demo_metrics3 = 0.705" "0.705 < TARGET_ACCURACY demo_config"
    by (simp_all add: demo_config_fields demo_fields)
  from stopping_rules [OF demo_run_iteration3 h(1), of demo_state2] h
  have a: "optimize_loop demo_env demo_config demo_suite 3 ''p!!'' demo_state2 33
             = (Plateau, demo_final, 45)"
    by (simp add: demo_after_iteration3)
  have "1 \<le> MAX_ITERATIONS demo_config" by (simp add: demo_config_fields)
  from stopping_rules [OF demo_run_iteration1 this, of "init_optimizer demo_config ''p''"]
  have b: "optimize_loop demo_env demo_config demo_suite 1 ''p''
             (init_optimizer demo_config ''p'') 6
           = optimize_loop demo_env demo_config demo_suite 2 ''p!'' demo_state1 20"
    by (simp add: demo_after_iteration1 demo_generate_next_prompt1 demo_config_fields
        demo_fields)
  have r: "run_iteration demo_env (demo_config\<lparr>TARGET_ACCURACY := 0.5\<rparr>) ''p'' demo_suite 1 6
             = (Inr demo_metrics1, 18)"
    by (simp add: run_iteration_weights [of _ demo_config] demo_run_iteration1)
  have "1 \<le> MAX_ITERATIONS (demo_config\<lparr>TARGET_ACCURACY := 0.5\<rparr>)"
    by (simp add: demo_config_fields)
  from stopping_rules [OF r this, of "init_optimizer demo_config ''p''"]
  have c: "optimize_loop demo_env (demo_config\<lparr>TARGET_ACCURACY := 0.5\<rparr>) demo_suite 1 ''p''
             (init_optimizer demo_config ''p'') 6
           = (Target_reached, demo_state1, 18)"
    by (simp add: demo_after_iteration1 demo_fields)
  have r: "run_iteration demo_env (demo_config\<lparr>MAX_ITERATIONS := 1\<rparr>) ''p'' demo_suite 1 6
             = (Inr demo_metrics1, 18)"
    by (simp add: run_iteration_weights [of _ demo_config] demo_run_iteration1)
  have "1 \<le> MAX_ITERATIONS (demo_config\<lparr>MAX_ITERATIONS := 1\<rparr>)" by simp
  from stopping_rules [OF r this, of "init_optimizer demo_config ''p''"]
  have d: "optimize_loop demo_env (demo_config\<lparr>MAX_ITERATIONS := 1\<rparr>) demo_suite 1 ''p''
             (init_optimizer demo_config ''p'') 6
           = (Range_exhausted, demo_state1, 18)"
    by (simp add: demo_after_iteration1 demo_fields demo_config_fields)
  from a b c d h demo_run_iteration3 show ?thesis by simp
qed

subsection \<open>C5: the iteration budget\<close>

text \<open>
  C5. With \<open>MAX_ITERATIONS = n \<ge> 1\<close> a run of \<open>optimize\<close> executes at most \<open>n\<close>
  iterations: the iterations it records, and the one that raised if it was left by an
  exception, are at most \<open>n\<close> together. When neither the target nor a plateau leaves
  the loop, the range is exhausted after exactly \<open>n\<close> recorded iterations. The loop is
  a total function: its recursion descends along \<open>MAX_ITERATIONS + 1 - it\<close>.
\<close>

theorem loop_within_budget:
  assumes "1 \<le> MAX_ITERATIONS cfg"
    and "optimize env cfg TEST_QUERIES INITIAL_PROMPT (init_optimizer cfg INITIAL_PROMPT) w
           = (how, self', w')"
  shows "length (metrics_history self') + raised how \<le> nat (MAX_ITERATIONS cfg) \<and>
         (how = Range_exhausted \<longrightarrow>
            length (metrics_history self') = nat (MAX_ITERATIONS cfg)) \<and>
         how \<noteq> Raised IndexError"
proof -
  obtain suite w1 where g: "generate_test_suite env cfg TEST_QUERIES [] w = (suite, w1)"
    by (cases "generate_test_suite env cfg TEST_QUERIES [] w")
  with assms(2)
  have l: "optimize_loop env cfg suite 1 INITIAL_PROMPT (init_optimizer cfg INITIAL_PROMPT) w1
             = (how, self', w')"
    by (simp add: optimize_def)
  have "metrics_history (init_optimizer cfg INITIAL_PROMPT) = []"
    by (simp add: init_optimizer_def)
  with optimize_loop_iterations [OF l] assms(1) show ?thesis by simp
qed

text \<open>A budget of five iterations, left on a plateau after three; and a budget of two
  iterations, exhausted.\<close>

theorem loop_within_budget_witness:
  "1 \<le> MAX_ITERATIONS demo_config \<and>
   optimize demo_env demo_config demo_queries ''p'' (init_optimizer demo_config ''p'') 0
     = (Plateau, demo_final, 45) \<and>
   length (metrics_history demo_final) = 3 \<and>
   nat (MAX_ITERATIONS demo_config) = 5 \<and>
   1 \<le> MAX_ITERATIONS (demo_config\<lparr>MAX_ITERATIONS := 2\<rparr>) \<and>
   optimize demo_env (demo_config\<lparr>MAX_ITERATIONS := 2\<rparr>) demo_queries ''p''
     (init_optimizer (demo_config\<lparr>MAX_ITERATIONS := 2\<rparr>) ''p'') 0
     = (Range_exhausted, demo_state2, 32) \<and>
   length (metrics_history demo_state2) = nat (MAX_ITERATIONS (demo_config\<lparr>MAX_ITERATIONS := 2\<rparr>))"
proof -
  have a: "1 \<le> MAX_ITERATIONS demo_config" by (simp add: demo_config_fields)
  have b: "1 \<le> MAX_ITERATIONS (demo_config\<lparr>MAX_ITERATIONS := 2\<rparr>)" by simp
  from loop_within_budget [OF a demo_optimize] loop_within_budget [OF b demo_exhausted]
    a b demo_optimize demo_exhausted
  show ?thesis by (simp add: demo_fields demo_config_fields)
qed

subsection \<open>C6: the seeds in the test suite\<close>

text \<open>
  C6. Whatever the model returns, the test suite is the concatenation, in the order of
  the seed queries, of one block per seed: the seed itself as a test case whose
  variation is the original, then the variations of that seed. With
  \<open>VARIATIONS_PER_QUERY = 1\<close> the suite has exactly one test case per seed, the seed
  itself.
\<close>

theorem test_suite_contains_seeds:
  assumes "generate_test_suite env cfg qs [] w = (suite, w')"
  shows "(\<exists>vss. length vss = length qs \<and> suite = concat (map2 seed_block qs vss)) \<and>
         (VARIATIONS_PER_QUERY cfg = 1 \<longrightarrow>
            suite = map (\<lambda>q. \<lparr>original = q, variation = q\<rparr>) qs \<and>
            length suite = length qs \<and>
            (\<forall>t\<in>set suite. variation t = original t))"
proof -
  from generate_test_suite_shape [OF assms] obtain vss where
    v: "length vss = length qs" "suite = concat (map2 seed_block qs vss)"
       "1 \<le> VARIATIONS_PER_QUERY cfg \<longrightarrow>
          (\<forall>vs\<in>set vss. length vs \<le> nat (VARIATIONS_PER_QUERY cfg - 1))"
    by auto
  have "suite = map (\<lambda>q. \<lparr>original = q, variation = q\<rparr>) qs"
    if "VARIATIONS_PER_QUERY cfg = 1"
  proof -
    from v(3) that have "\<forall>vs\<in>set vss. vs = []" by simp
    from concat_seed_blocks_Nil [OF v(1) this] v(2) show ?thesis by simp
  qed
  moreover have "length suite = length qs \<and> (\<forall>t\<in>set suite. variation t = original t)"
    if "suite = map (\<lambda>q. \<lparr>original = q, variation = q\<rparr>) qs"
    using that by auto
  ultimately show ?thesis using v(1,2) by blast
qed

text \<open>Six seeds with \<open>VARIATIONS_PER_QUERY = 1\<close>, and two seeds with
  \<open>VARIATIONS_PER_QUERY = 3\<close>, under a model that returns three variations.\<close>

theorem test_suite_contains_seeds_witness:
  "generate_test_suite demo_env demo_config demo_queries [] 0 = (demo_suite, 6) \<and>
   VARIATIONS_PER_QUERY demo_config = 1 \<and>
   length demo_suite = length demo_queries \<and>
   map variation demo_suite = map original demo_suite \<and>
   (\<exists>vss. length vss = length [''a'', ''b''] \<and>
      seed_block ''a'' [''a please'', ''a now''] @ seed_block ''b'' [''b please'', ''b now'']
        = concat (map2 seed_block [''a'', ''b''] vss))"
proof -
  have k: "VARIATIONS_PER_QUERY demo_config = 1" by (simp add: demo_config_def)
  from test_suite_contains_seeds [OF demo_generate_test_suite] k
  have "length demo_suite = length demo_queries"
    and "\<forall>t\<in>set demo_suite. variation t = original t" by simp_all
  then have "length demo_suite = length demo_queries"
    and "map variation demo_suite = map original demo_suite" by simp_all
  with test_suite_contains_seeds [OF demo_generate_test_suite3] demo_generate_test_suite k
  show ?thesis by simp
qed

subsection \<open>C7: the rewriter\<close>

text \<open>
  C7. When the call of the model in \<open>optimize_prompt\<close> returns no result, the method
  returns the prompt it was given; when the call returns a text, the method returns
  that text, stripped. In the loop, before the last iteration, a failed call hands the
  current prompt unchanged to the next iteration.
\<close>

theorem rewrite_failure_keeps_prompt:
  "(rewriter_call env cfg current_prompt m insights w = (None, w') \<longrightarrow>
      optimize_prompt env cfg current_prompt m insights w = (current_prompt, w')) \<and>
   (rewriter_call env cfg current_prompt m insights w = (Some content, w') \<longrightarrow>
      optimize_prompt env cfg current_prompt m insights w = (py_strip content, w')) \<and>
   (it < MAX_ITERATIONS cfg \<longrightarrow>
    (if USE_PERPLEXITY cfg \<and> it = 1
     then research_optimization_strategies env cfg self m w else ('''', w)) = (insights, w1) \<longrightarrow>
    rewriter_call env cfg current_prompt m insights w1 = (None, w') \<longrightarrow>
      generate_next_prompt env cfg it current_prompt m self w = Continue current_prompt self w')"
  by (simp add: rewriter_call_def optimize_prompt_def generate_next_prompt_def Let_def)

text \<open>A failed call in the first iteration of the run of \<open>failing_env\<close>, which goes on
  with the initial prompt; and a successful call.\<close>

theorem rewrite_failure_keeps_prompt_witness:
  "rewriter_call failing_env demo_config ''p'' (failing_metrics 1) '''' 4 = (None, 5) \<and>
   optimize_prompt failing_env demo_config ''p'' (failing_metrics 1) '''' 4 = (''p'', 5) \<and>
   rewriter_call demo_env demo_config ''p'' demo_metrics1 '''' 7 = (Some ''p! '', 8) \<and>
   optimize_prompt demo_env demo_config ''p'' demo_metrics1 '''' 7 = (''p!'', 8) \<and>
   1 < MAX_ITERATIONS demo_config \<and>
   generate_next_prompt failing_env demo_config 1 ''p'' (failing_metrics 1) failing_state1 3
     = Continue ''p'' failing_state1 5 \<and>
   optimize failing_env demo_config [''q''] ''p'' (init_optimizer demo_config ''p'') 0
     = (Plateau, failing_final, 7)"
proof -
  have i: "1 < MAX_ITERATIONS demo_config" by (simp add: demo_config_fields)
  from rewrite_failure_keeps_prompt
         [where env = failing_env and cfg = demo_config and current_prompt = "''p''"
            and m = "failing_metrics 1" and insights = "''''" and w = 4 and w' = 5]
       failing_rewriter_call
  have a: "optimize_prompt failing_env demo_config ''p'' (failing_metrics 1) '''' 4 = (''p'', 5)"
    by simp
  from rewrite_failure_keeps_prompt
         [where env = failing_env and cfg = demo_config and current_prompt = "''p''"
            and m = "failing_metrics 1" and insights = "''''" and w = 3 and ?w1.0 = 4
            and w' = 5 and it = 1 and self = failing_state1]
       failing_rewriter_call failing_research i
  have c: "generate_next_prompt failing_env demo_config 1 ''p'' (failing_metrics 1)
             failing_state1 3 = Continue ''p'' failing_state1 5"
    by simp
  from rewrite_failure_keeps_prompt
         [where env = demo_env and cfg = demo_config and current_prompt = "''p''"
            and m = demo_metrics1 and insights = "''''" and w = 7 and w' = 8
            and content = "''p! ''"]
       demo_rewriter_call py_strip_demo_prompt
  have b: "optimize_prompt demo_env demo_config ''p'' demo_metrics1 '''' 7 = (''p!'', 8)"
    by simp
  from a b c show ?thesis
    using failing_rewriter_call demo_rewriter_call failing_optimize i by simp
qed

subsection \<open>C8: a failed probe of the expected function\<close>

text \<open>
  C8, as the code has it. When the call for the expected function fails, the expected
  function is the string \<open>unknown\<close>. When the call of the assistant fails, the actual
  function is \<open>None\<close>. The two differ: when both calls fail for a test case, its
  evaluation records \<open>unknown\<close>, \<open>None\<close> and \<open>correct = False\<close>.
\<close>

theorem failed_probe_is_unknown:
  "(chat_completion env w (Expected_prompt FUNCTIONS q) 0 20 = (None, w') \<longrightarrow>
      get_expected_function env q w = (''unknown'', w')) \<and>
   (chat_completion_with_tools env w (prompt, variation test) FUNCTIONS 0.7 500 = (None, w1) \<longrightarrow>
    chat_completion env w1 (Expected_prompt FUNCTIONS (variation test)) 0 20 = (None, w2) \<longrightarrow>
      test_loop env prompt (test # tests) results w =
        test_loop env prompt tests
          (results @ [\<lparr>evaluation.query = variation test, expected = ''unknown'',
                       actual = PyNone, evaluation.correct = False\<rparr>]) w2)"
  by (simp add: get_expected_function_unknown call_voice_assistant_failed)

theorem failed_probe_is_unknown_witness:
  "chat_completion failing_env 1 (Expected_prompt FUNCTIONS ''q'') 0 20 = (None, 2) \<and>
   get_expected_function failing_env ''q'' 1 = (''unknown'', 2) \<and>
   chat_completion_with_tools failing_env 0 (''p'', ''q'') FUNCTIONS 0.7 500 = (None, 1) \<and>
   test_loop failing_env ''p'' [\<lparr>original = ''q'', variation = ''q''\<rparr>] [] 0 =
     (Inr [\<lparr>evaluation.query = ''q'', expected = ''unknown'', actual = PyNone,
            evaluation.correct = False\<rparr>], 2)"
proof -
  have a: "chat_completion failing_env 1 (Expected_prompt FUNCTIONS ''q'') 0 20 = (None, 2)"
    by (simp add: failing_env_def)
  have b: "chat_completion_with_tools failing_env 0 (''p'', ''q'') FUNCTIONS 0.7 500 = (None, 1)"
    by (simp add: failing_env_def)
  from failed_probe_is_unknown
         [where env = failing_env and w = 1 and q = "''q''" and w' = 2]
       a
  have c: "get_expected_function failing_env ''q'' 1 = (''unknown'', 2)" by simp
  from failed_probe_is_unknown
         [where env = failing_env and w = 0 and prompt = "''p''"
            and test = "\<lparr>original = ''q'', variation = ''q''\<rparr>" and ?w1.0 = 1 and ?w2.0 = 2
            and tests = "[]" and results = "[]"]
       a b
  have "test_loop failing_env ''p'' [\<lparr>original = ''q'', variation = ''q''\<rparr>] [] 0 =
     (Inr [\<lparr>evaluation.query = ''q'', expected = ''unknown'', actual = PyNone,
            evaluation.correct = False\<rparr>], 2)" by simp
  with a b c show ?thesis by simp
qed

text \<open>The claim that the two failure representations compare equal fails: with both
  calls failing, the evaluation is not correct, and the overall score of an iteration
  over this one test case has no share of the function weight.\<close>

theorem failure_representations_differ:
  "chat_completion_with_tools failing_env 0 (''p'', ''q'') FUNCTIONS 0.7 500 = (None, 1) \<and>
   chat_completion failing_env 1 (Expected_prompt FUNCTIONS ''q'') 0 20 = (None, 2) \<and>
   run_iteration failing_env demo_config ''p'' [\<lparr>original = ''q'', variation = ''q''\<rparr>] 1 0 =
     (Inr \<lparr>iteration = 1, overall = 0.675, function_acc = 0, metrics.correct = 0, total = 1,
           evaluations = [\<lparr>evaluation.query = ''q'', expected = ''unknown'',
                            actual = PyNone, evaluation.correct = False\<rparr>]\<rparr>, 2) \<and>
   PyNone \<noteq> PyStr ''unknown''"
  by (simp add: run_iteration_eq call_voice_assistant_def get_expected_function_def
      failing_env_def demo_config_def)

subsection \<open>C9: an empty test suite\<close>

text \<open>
  C9. An iteration over an empty test suite raises nothing: the division that computes
  the function accuracy would raise on the total 0, and the guard \<open>total > 0\<close> keeps
  it from being evaluated; the function accuracy is 0 and the overall score is
  \<open>0.8 * PARAMETER_WEIGHT\<close>. No remote call is made.
\<close>

theorem empty_suite_guarded:
  "run_iteration env cfg prompt [] it w =
     (Inr \<lparr>iteration = it, overall = 0.8 * PARAMETER_WEIGHT cfg, function_acc = 0,
           metrics.correct = 0, total = 0, evaluations = []\<rparr>, w) \<and>
   py_truediv (length (filter evaluation.correct [])) (length ([] :: evaluation list))
     = Inl ZeroDivisionError"
  by (simp add: run_iteration_def py_truediv_def)

theorem empty_suite_guarded_witness:
  "run_iteration demo_env demo_config ''p'' [] 1 0 =
     (Inr \<lparr>iteration = 1, overall = 0.675, function_acc = 0,
           metrics.correct = 0, total = 0, evaluations = []\<rparr>, 0) \<and>
   py_truediv 0 0 = Inl ZeroDivisionError"
  using empty_suite_guarded [of demo_env demo_config "''p''" 1 0]
  by (simp add: demo_config_def)

subsection \<open>C10: the size of the test suite\<close>

text \<open>
  C10. With \<open>VARIATIONS_PER_QUERY = k \<ge> 1\<close> the test suite has at most \<open>k\<close> test cases
  per seed query, however many lines the model returns: \<open>generate_query_variations\<close>
  returns the query followed by at most \<open>k - 1\<close> variations.
\<close>

theorem test_suite_size_bound:
  assumes "1 \<le> VARIATIONS_PER_QUERY cfg"
  shows "(generate_test_suite env cfg qs [] w = (suite, w') \<longrightarrow>
            length suite \<le> length qs * nat (VARIATIONS_PER_QUERY cfg)) \<and>
         (generate_query_variations env q (VARIATIONS_PER_QUERY cfg) w = (vs, w') \<longrightarrow>
            hd vs = q \<and> length (tl vs) \<le> nat (VARIATIONS_PER_QUERY cfg - 1))"
proof -
  have "length suite \<le> length qs * nat (VARIATIONS_PER_QUERY cfg)"
    if g: "generate_test_suite env cfg qs [] w = (suite, w')"
  proof -
    from generate_test_suite_shape [OF g] assms obtain vss where
      v: "length vss = length qs" "suite = concat (map2 seed_block qs vss)"
         "\<forall>vs\<in>set vss. length vs \<le> nat (VARIATIONS_PER_QUERY cfg - 1)"
      by auto
    from length_concat_seed_blocks [OF v(1,3)] v(2)
    have "length suite \<le> length qs * Suc (nat (VARIATIONS_PER_QUERY cfg - 1))" by simp
    moreover from assms
    have "Suc (nat (VARIATIONS_PER_QUERY cfg - 1)) = nat (VARIATIONS_PER_QUERY cfg)" by simp
    ultimately show ?thesis by simp
  qed
  moreover have "hd vs = q \<and> length (tl vs) \<le> nat (VARIATIONS_PER_QUERY cfg - 1)"
    if g: "generate_query_variations env q (VARIATIONS_PER_QUERY cfg) w = (vs, w')"
    using generate_query_variations_shape [OF g] assms by auto
  ultimately show ?thesis by blast
qed

text \<open>Two seeds with \<open>VARIATIONS_PER_QUERY = 3\<close>: the model returns three variations of
  each, two are kept.\<close>

theorem test_suite_size_bound_witness:
  "1 \<le> VARIATIONS_PER_QUERY (demo_config\<lparr>VARIATIONS_PER_QUERY := 3\<rparr>) \<and>
   generate_test_suite demo_env (demo_config\<lparr>VARIATIONS_PER_QUERY := 3\<rparr>) [''a'', ''b''] [] 0
     = (seed_block ''a'' [''a please'', ''a now''] @ seed_block ''b'' [''b please'', ''b now''], 2) \<and>
   length (seed_block ''a'' [''a please'', ''a now''] @ seed_block ''b'' [''b please'', ''b now''])
     \<le> length [''a'', ''b''] * 3 \<and>
   generate_query_variations demo_env ''a''
       (VARIATIONS_PER_QUERY (demo_config\<lparr>VARIATIONS_PER_QUERY := 3\<rparr>)) 0
     = ([''a'', ''a please'', ''a now''], 1) \<and>
   length (tl [''a'', ''a please'', ''a now'']) \<le> 2"
proof -
  have k: "1 \<le> VARIATIONS_PER_QUERY (demo_config\<lparr>VARIATIONS_PER_QUERY := 3\<rparr>)" by simp
  have v: "generate_query_variations demo_env ''a''
             (VARIATIONS_PER_QUERY (demo_config\<lparr>VARIATIONS_PER_QUERY := 3\<rparr>)) 0
           = ([''a'', ''a please'', ''a now''], 1)"
    by code_simp
  from test_suite_size_bound
         [OF k, where env = demo_env and qs = "[''a'', ''b'']" and w = 0 and w' = 2
            and suite = "seed_block ''a'' [''a please'', ''a now'']
                           @ seed_block ''b'' [''b please'', ''b now'']"]
       demo_generate_test_suite3
  have a: "length (seed_block ''a'' [''a please'', ''a now'']
                     @ seed_block ''b'' [''b please'', ''b now'']) \<le> length [''a'', ''b''] * 3"
    by simp
  from test_suite_size_bound
         [OF k, where env = demo_env and q = "''a''" and w = 0 and w' = 1
            and vs = "[''a'', ''a please'', ''a now'']"]
       v
  have b: "length (tl [''a'', ''a please'', ''a now'']) \<le> 2" by simp
  from a b v demo_generate_test_suite3 show ?thesis by simp
qed

end
